theory Spec2Isabelle
  imports Complex_Main "HOL-Library.Product_Lexorder"
begin

section \<open>Helpers of \<open>ecu.sbl.aace.datalake.common\<close>\<close>

text \<open>
  The development embeds the decision logic of \<^verbatim>\<open>common.py\<close>: the list splicing
  helper \<^verbatim>\<open>insertValueIntoList\<close>, the column aliasing of
  \<^verbatim>\<open>insertColumnAndAlias\<close>, the value normaliser \<^verbatim>\<open>fixDodgyThing\<close> with the
  sequence matcher of Python's \<^verbatim>\<open>difflib\<close> that it calls, the two join conditions
  and the join wrapper \<^verbatim>\<open>simpleMap\<close>.

  Python strings are HOL strings read as ASCII text; Python's \<^verbatim>\<open>in\<close> on a list is
  membership in \<open>set\<close>.
\<close>

subsection \<open>List splicing\<close>

text \<open>
  \<^verbatim>\<open>
  def insertValueIntoList (theList, oldVal, newVal):
      if oldVal not in theList:
          result = theList
          result.append(newVal)
      elif newVal in theList:
          result = theList
      else:
          result = []
          for item in theList:
              if item == oldVal: result.append(newVal)
              else:              result.append(item)
          result.append(oldVal)
      return result
  \<close>
  The loop of the last branch is a map over the list. In the first branch the returned
  list is the caller's own list object, which has been extended in place;
  \<open>insertValueIntoList_arg\<close> is the content of the caller's list after the call.
\<close>

definition insertValueIntoList :: "'a list \<Rightarrow> 'a \<Rightarrow> 'a \<Rightarrow> 'a list" where
  "insertValueIntoList theList oldVal newVal =
     (if oldVal \<notin> set theList then theList @ [newVal]
      else if newVal \<in> set theList then theList
      else map (\<lambda>item. if item = oldVal then newVal else item) theList @ [oldVal])"

definition insertValueIntoList_arg :: "'a list \<Rightarrow> 'a \<Rightarrow> 'a \<Rightarrow> 'a list" where
  "insertValueIntoList_arg theList oldVal newVal =
     (if oldVal \<notin> set theList then theList @ [newVal] else theList)"

text \<open>
  \<^verbatim>\<open>
  def replaceValueInList (theList, oldVal, newVal):
      return [newVal if item == oldVal else item for item in theList]
  \<close>
\<close>

definition replaceValueInList :: "'a list \<Rightarrow> 'a \<Rightarrow> 'a \<Rightarrow> 'a list" where
  "replaceValueInList theList oldVal newVal =
     map (\<lambda>item. if item = oldVal then newVal else item) theList"

subsection \<open>Column aliasing\<close>

text \<open>
  \<^verbatim>\<open>
  def insertColumnAndAlias (columns, valColumn, indexColumn, mapColumns = None):
      cols = insertValueIntoList(theList = columns, oldVal = valColumn, newVal = indexColumn)
      aliased = [f"fact.{c}" if c == valColumn else f"map.{c}" if c == indexColumn else c
                 for c in cols]
      if mapColumns:
          aliasedMore = [f"fact.{c}" if '.' not in c and c in mapColumns else c
                         for c in aliased]
          if not aliasedMore == aliased:
              print (aliasedMore)
              aliased = aliasedMore
      return aliased
  \<close>
  The function prints; the model returns what was printed together with the result.
  \<open>Line s\<close> is a printed string and \<open>ListRepr xs\<close> a printed list of strings. An absent
  and an empty \<open>mapColumns\<close> are both falsy.
\<close>

datatype printed = Line string | ListRepr "string list"

definition insertColumnAndAlias ::
    "string list \<Rightarrow> string \<Rightarrow> string \<Rightarrow> string list option \<Rightarrow> printed list \<times> string list" where
  "insertColumnAndAlias columns valColumn indexColumn mapColumns =
     (let cols = insertValueIntoList columns valColumn indexColumn;
          aliased = map (\<lambda>c. if c = valColumn then ''fact.'' @ c
                              else if c = indexColumn then ''map.'' @ c else c) cols
      in case mapColumns of
           None \<Rightarrow> ([], aliased)
         | Some mapColumns \<Rightarrow>
             if mapColumns = [] then ([], aliased)
             else
               let aliasedMore = map (\<lambda>c. if CHR ''.'' \<notin> set c \<and> c \<in> set mapColumns
                                           then ''fact.'' @ c else c) aliased
               in if aliasedMore \<noteq> aliased then ([ListRepr aliasedMore], aliasedMore)
                  else ([], aliased))"

subsection \<open>The sequence matcher of \<^verbatim>\<open>difflib\<close>\<close>

text \<open>
  \<^verbatim>\<open>are_strings_similar\<close> calls \<^verbatim>\<open>difflib.SequenceMatcher(None, str1, str2).ratio()\<close>.
  The definitions below follow \<^verbatim>\<open>difflib.py\<close> of CPython 3.11 for that call: no junk
  predicate (\<^verbatim>\<open>isjunk = None\<close>, so \<^verbatim>\<open>bjunk\<close> is empty) and \<^verbatim>\<open>autojunk = True\<close>.

  \<^verbatim>\<open>__chain_b\<close> builds \<^verbatim>\<open>b2j\<close>, which maps each element of \<open>b\<close> to the increasing
  list of its positions, and then deletes the "popular" elements when \<open>b\<close> has at
  least 200 elements:
  \<^verbatim>\<open>
  for i, elt in enumerate(b):
      indices = b2j.setdefault(elt, [])
      indices.append(i)
  n = len(b)
  if self.autojunk and n >= 200:
      ntest = n // 100 + 1
      for elt, idxs in b2j.items():
          if len(idxs) > ntest: popular.add(elt)
      for elt in popular: del b2j[elt]
  \<close>
  \<open>b2j b elt\<close> is \<^verbatim>\<open>b2j.get(elt, [])\<close>.
\<close>

definition b2j :: "'a list \<Rightarrow> 'a \<Rightarrow> nat list" where
  "b2j b elt =
     (let indices = filter (\<lambda>j. b ! j = elt) [0..<length b];
          n = length b
      in if n \<ge> 200 \<and> length indices > n div 100 + 1 then [] else indices)"

text \<open>
  \<^verbatim>\<open>find_longest_match(alo, ahi, blo, bhi)\<close>:
  \<^verbatim>\<open>
  besti, bestj, bestsize = alo, blo, 0
  j2len = {}
  for i in range(alo, ahi):
      newj2len = {}
      for j in b2j.get(a[i], nothing):
          if j < blo: continue
          if j >= bhi: break
          k = newj2len[j] = j2len.get(j-1, 0) + 1
          if k > bestsize:
              besti, bestj, bestsize = i-k+1, j-k+1, k
      j2len = newj2len
  while besti > alo and bestj > blo and not isbjunk(b[bestj-1]) and a[besti-1] == b[bestj-1]:
      besti, bestj, bestsize = besti-1, bestj-1, bestsize+1
  while besti+bestsize < ahi and bestj+bestsize < bhi and \
        not isbjunk(b[bestj+bestsize]) and a[besti+bestsize] == b[bestj+bestsize]:
      bestsize += 1
  (two more loops that run only on junk elements: there are none)
  return Match(besti, bestj, bestsize)
  \<close>
  A match is the triple \<open>(i, j, k)\<close>. The dictionaries \<^verbatim>\<open>j2len\<close> and \<^verbatim>\<open>newj2len\<close> are
  maps. \<open>j2len_prev j2len j\<close> is \<^verbatim>\<open>j2len.get(j-1, 0)\<close>: the key \<open>-1\<close> is never in the
  dictionary, so the value at \<open>j = 0\<close> is the default. Indices are natural numbers;
  \<open>k\<close> counts a match that ends at \<open>a[i]\<close> and \<open>b[j]\<close>, so \<open>k \<le> i + 1\<close> and
  \<open>k \<le> j + 1\<close>, and \<^verbatim>\<open>i-k+1\<close> is written \<open>i + 1 - k\<close>.
  \<open>match_row\<close> is the inner loop, \<open>scan_a\<close> the outer one, \<open>extend_left\<close> and
  \<open>extend_right\<close> the two \<^verbatim>\<open>while\<close> loops.
\<close>

type_synonym match = "nat \<times> nat \<times> nat"

definition j2len_prev :: "(nat \<rightharpoonup> nat) \<Rightarrow> nat \<Rightarrow> nat" where
  "j2len_prev j2len j = (if j = 0 then 0 else case j2len (j - 1) of None \<Rightarrow> 0 | Some l \<Rightarrow> l)"

fun match_row :: "(nat \<rightharpoonup> nat) \<Rightarrow> nat \<Rightarrow> nat \<Rightarrow> nat \<Rightarrow> nat list
    \<Rightarrow> (nat \<rightharpoonup> nat) \<times> match \<Rightarrow> (nat \<rightharpoonup> nat) \<times> match" where
  "match_row j2len i blo bhi [] st = st"
| "match_row j2len i blo bhi (j # js) (newj2len, besti, bestj, bestsize) =
     (if j < blo then match_row j2len i blo bhi js (newj2len, besti, bestj, bestsize)
      else if j \<ge> bhi then (newj2len, besti, bestj, bestsize)
      else
        let k = j2len_prev j2len j + 1
        in match_row j2len i blo bhi js
             (newj2len(j \<mapsto> k),
              if k > bestsize then (i + 1 - k, j + 1 - k, k) else (besti, bestj, bestsize)))"

fun scan_a :: "'a list \<Rightarrow> 'a list \<Rightarrow> nat \<Rightarrow> nat \<Rightarrow> nat list
    \<Rightarrow> (nat \<rightharpoonup> nat) \<times> match \<Rightarrow> match" where
  "scan_a a b blo bhi [] (j2len, best) = best"
| "scan_a a b blo bhi (i # is) (j2len, best) =
     scan_a a b blo bhi is (match_row j2len i blo bhi (b2j b (a ! i)) (Map.empty, best))"

function extend_left :: "'a list \<Rightarrow> 'a list \<Rightarrow> nat \<Rightarrow> nat \<Rightarrow> match \<Rightarrow> match" where
  "extend_left a b alo blo (besti, bestj, bestsize) =
     (if besti > alo \<and> bestj > blo \<and> a ! (besti - 1) = b ! (bestj - 1)
      then extend_left a b alo blo (besti - 1, bestj - 1, bestsize + 1)
      else (besti, bestj, bestsize))"
  by pat_completeness auto
termination
  by (relation "measure (\<lambda>(a, b, alo, blo, besti, bestj, bestsize). besti)") auto

function extend_right :: "'a list \<Rightarrow> 'a list \<Rightarrow> nat \<Rightarrow> nat \<Rightarrow> match \<Rightarrow> match" where
  "extend_right a b ahi bhi (besti, bestj, bestsize) =
     (if besti + bestsize < ahi \<and> bestj + bestsize < bhi
         \<and> a ! (besti + bestsize) = b ! (bestj + bestsize)
      then extend_right a b ahi bhi (besti, bestj, bestsize + 1)
      else (besti, bestj, bestsize))"
  by pat_completeness auto
termination
  by (relation "measure (\<lambda>(a, b, ahi, bhi, besti, bestj, bestsize). ahi - (besti + bestsize))") auto

definition find_longest_match :: "'a list \<Rightarrow> 'a list \<Rightarrow> nat \<Rightarrow> nat \<Rightarrow> nat \<Rightarrow> nat \<Rightarrow> match" where
  "find_longest_match a b alo ahi blo bhi =
     extend_right a b ahi bhi
       (extend_left a b alo blo
          (scan_a a b blo bhi [alo..<ahi] (Map.empty, (alo, blo, 0))))"

text \<open>
  The match that \<open>find_longest_match\<close> returns lies inside the range of \<open>a\<close> it was
  asked about; the loop of \<^verbatim>\<open>get_matching_blocks\<close> terminates because of that.
\<close>

lemma j2len_prev_le:
  "(\<And>j l. j2len j = Some l \<Longrightarrow> l \<le> n) \<Longrightarrow> j2len_prev j2len j \<le> n"
  by (auto simp: j2len_prev_def split: option.splits)

lemma match_row_bounds:
  "match_row j2len i blo bhi js (new, bi, bj, bs) = (new', bi', bj', bs') \<Longrightarrow>
   alo \<le> bi \<Longrightarrow> bi + bs \<le> Suc i \<Longrightarrow> (\<And>j l. j2len j = Some l \<Longrightarrow> l \<le> i - alo) \<Longrightarrow> alo \<le> i \<Longrightarrow>
   (\<And>j l. new j = Some l \<Longrightarrow> l \<le> Suc i - alo) \<Longrightarrow>
   alo \<le> bi' \<and> bi' + bs' \<le> Suc i \<and> (\<forall>j l. new' j = Some l \<longrightarrow> l \<le> Suc i - alo)"
proof (induction js arbitrary: new bi bj bs)
  case Nil
  then show ?case by auto
next
  case (Cons j js)
  show ?case
  proof (cases "j < blo")
    case True
    with Cons.prems show ?thesis
      using Cons.IH[of new bi bj bs] by auto
  next
    case nlo: False
    show ?thesis
    proof (cases "j \<ge> bhi")
      case True
      with nlo Cons.prems show ?thesis by auto
    next
      case False
      define k where "k = j2len_prev j2len j + 1"
      have kle: "k \<le> Suc i - alo"
        using j2len_prev_le[of j2len "i - alo" j] Cons.prems(4) Cons.prems(5)
        by (auto simp: k_def)
      have k1: "k \<ge> 1" by (simp add: k_def)
      define best where "best = (if k > bs then (i + 1 - k, j + 1 - k, k) else (bi, bj, bs))"
      obtain ci cj cs where best: "best = (ci, cj, cs)" by (cases best) auto
      have "match_row j2len i blo bhi (j # js) (new, bi, bj, bs)
            = match_row j2len i blo bhi js (new(j \<mapsto> k), best)"
        using nlo False unfolding k_def best_def by (simp add: Let_def)
      then have step: "match_row j2len i blo bhi js (new(j \<mapsto> k), ci, cj, cs) = (new', bi', bj', bs')"
        using Cons.prems(1) best by simp
      have b1: "alo \<le> ci" "ci + cs \<le> Suc i"
        using best kle k1 Cons.prems(2,3,5) by (auto simp: best_def split: if_splits)
      have b2: "\<And>j' l. (new(j \<mapsto> k)) j' = Some l \<Longrightarrow> l \<le> Suc i - alo"
        using kle Cons.prems(6) by (auto split: if_splits)
      show ?thesis
        using Cons.IH[OF step b1 Cons.prems(4) Cons.prems(5) b2] by simp
    qed
  qed
qed


lemma scan_a_bounds:
  "scan_a a b blo bhi [i0..<ahi] (j2len, bi, bj, bs) = (ri, rj, rs) \<Longrightarrow>
   alo \<le> i0 \<Longrightarrow> alo \<le> bi \<Longrightarrow> bi + bs \<le> i0 \<Longrightarrow>
   (\<And>j l. j2len j = Some l \<Longrightarrow> l \<le> i0 - alo) \<Longrightarrow>
   alo \<le> ri \<and> ri + rs \<le> max i0 ahi"
proof (induction "ahi - i0" arbitrary: i0 j2len bi bj bs)
  case 0
  then show ?case by simp
next
  case (Suc n)
  then have lt: "i0 < ahi" by simp
  obtain new' bi' bj' bs' where
    row: "match_row j2len i0 blo bhi (b2j b (a ! i0)) (Map.empty, bi, bj, bs) = (new', bi', bj', bs')"
    by (metis prod_cases4)
  have inv: "alo \<le> bi' \<and> bi' + bs' \<le> Suc i0 \<and> (\<forall>j l. new' j = Some l \<longrightarrow> l \<le> Suc i0 - alo)"
    using match_row_bounds[OF row Suc.prems(3) _ Suc.prems(5) Suc.prems(2)] Suc.prems(4)
    by simp
  have rest: "scan_a a b blo bhi [Suc i0..<ahi] (new', bi', bj', bs') = (ri, rj, rs)"
    using Suc.prems(1) lt row by (simp add: upt_conv_Cons)
  have "alo \<le> ri \<and> ri + rs \<le> max (Suc i0) ahi"
    using Suc.hyps(1)[OF _ rest] Suc.hyps(2) Suc.prems(2) inv by auto
  then show ?case using lt by auto
qed

lemma extend_left_bounds:
  "extend_left a b alo blo (bi, bj, bs) = (ri, rj, rs) \<Longrightarrow> alo \<le> bi \<Longrightarrow>
   alo \<le> ri \<and> ri + rs = bi + bs"
proof (induction a b alo blo "(bi, bj, bs)" arbitrary: bi bj bs rule: extend_left.induct)
  case (1 a b alo blo besti bestj bestsize)
  show ?case
  proof (cases "besti > alo \<and> bestj > blo \<and> a ! (besti - 1) = b ! (bestj - 1)")
    case True
    then have "extend_left a b alo blo (besti - 1, bestj - 1, bestsize + 1) = (ri, rj, rs)"
      using "1.prems"(1) by simp
    from "1.hyps"[OF True this] True show ?thesis by auto
  next
    case False
    then show ?thesis using "1.prems" by auto
  qed
qed

lemma extend_right_bounds:
  "extend_right a b ahi bhi (bi, bj, bs) = (ri, rj, rs) \<Longrightarrow>
   ri = bi \<and> bs \<le> rs \<and> ri + rs \<le> max (bi + bs) ahi"
proof (induction a b ahi bhi "(bi, bj, bs)" arbitrary: bi bj bs rule: extend_right.induct)
  case (1 a b ahi bhi besti bestj bestsize)
  show ?case
  proof (cases "besti + bestsize < ahi \<and> bestj + bestsize < bhi
         \<and> a ! (besti + bestsize) = b ! (bestj + bestsize)")
    case True
    then have "extend_right a b ahi bhi (besti, bestj, bestsize + 1) = (ri, rj, rs)"
      using "1.prems"(1) by simp
    from "1.hyps"[OF True this] True show ?thesis by auto
  next
    case False
    then show ?thesis using "1.prems" by auto
  qed
qed

lemma find_longest_match_bounds:
  assumes "find_longest_match a b alo ahi blo bhi = (i, j, k)"
  shows "alo \<le> i \<and> i + k \<le> max alo ahi"
proof -
  obtain si sj sk where s: "scan_a a b blo bhi [alo..<ahi] (Map.empty, (alo, blo, 0)) = (si, sj, sk)"
    by (metis prod_cases3)
  obtain li lj lk where l: "extend_left a b alo blo (si, sj, sk) = (li, lj, lk)"
    by (metis prod_cases3)
  have r: "extend_right a b ahi bhi (li, lj, lk) = (i, j, k)"
    using assms s l by (simp add: find_longest_match_def)
  have 1: "alo \<le> si \<and> si + sk \<le> max alo ahi"
    using scan_a_bounds[OF s, of alo] by simp
  have 2: "alo \<le> li \<and> li + lk = si + sk"
    using extend_left_bounds[OF l] 1 by simp
  show ?thesis using extend_right_bounds[OF r] 1 2 by auto
qed

text \<open>
  \<^verbatim>\<open>
  def get_matching_blocks(self):
      la, lb = len(self.a), len(self.b)
      queue = [(0, la, 0, lb)]
      matching_blocks = []
      while queue:
          alo, ahi, blo, bhi = queue.pop()
          i, j, k = x = self.find_longest_match(alo, ahi, blo, bhi)
          if k:
              matching_blocks.append(x)
              if alo < i and blo < j:
                  queue.append((alo, i, blo, j))
              if i+k < ahi and j+k < bhi:
                  queue.append((i+k, ahi, j+k, bhi))
      matching_blocks.sort()
      i1 = j1 = k1 = 0
      non_adjacent = []
      for i2, j2, k2 in matching_blocks:
          if i1 + k1 == i2 and j1 + k1 == j2:
              k1 += k2
          else:
              if k1: non_adjacent.append((i1, j1, k1))
              i1, j1, k1 = i2, j2, k2
      if k1: non_adjacent.append((i1, j1, k1))
      non_adjacent.append( (la, lb, 0) )
      return non_adjacent
  \<close>
  \<^verbatim>\<open>queue\<close> is used as a stack (\<^verbatim>\<open>pop()\<close> takes the last element); \<open>blocks_loop\<close>
  keeps it with the last element first. \<open>collapse\<close> is the second loop with the
  append that follows it.
\<close>

function blocks_loop :: "'a list \<Rightarrow> 'a list \<Rightarrow> (nat \<times> nat \<times> nat \<times> nat) list \<Rightarrow> match list \<Rightarrow> match list" where
  "blocks_loop a b [] matching_blocks = matching_blocks"
| "blocks_loop a b ((alo, ahi, blo, bhi) # queue) matching_blocks =
     (case find_longest_match a b alo ahi blo bhi of (i, j, k) \<Rightarrow>
        if k \<noteq> 0 then
          blocks_loop a b
            ((if i + k < ahi \<and> j + k < bhi then [(i + k, ahi, j + k, bhi)] else [])
             @ (if alo < i \<and> blo < j then [(alo, i, blo, j)] else [])
             @ queue)
            (matching_blocks @ [(i, j, k)])
        else blocks_loop a b queue matching_blocks)"
  by pat_completeness auto
termination
proof (relation "measure (\<lambda>(a, b, queue, mb). sum_list (map (\<lambda>(alo, ahi, blo, bhi). 2 * (ahi - alo) + 1) queue))", goal_cases)
  case 1
  then show ?case by simp
next
  case 2
  then show ?case
    by (auto dest!: find_longest_match_bounds [OF sym])
next
  case 3
  then show ?case by simp
qed

fun collapse :: "match \<Rightarrow> match list \<Rightarrow> match list" where
  "collapse (i1, j1, k1) [] = (if k1 \<noteq> 0 then [(i1, j1, k1)] else [])"
| "collapse (i1, j1, k1) ((i2, j2, k2) # rest) =
     (if i1 + k1 = i2 \<and> j1 + k1 = j2 then collapse (i1, j1, k1 + k2) rest
      else (if k1 \<noteq> 0 then [(i1, j1, k1)] else []) @ collapse (i2, j2, k2) rest)"

definition get_matching_blocks :: "'a list \<Rightarrow> 'a list \<Rightarrow> match list" where
  "get_matching_blocks a b =
     (let la = length a; lb = length b;
          matching_blocks = sort (blocks_loop a b [(0, la, 0, lb)] [])
      in collapse (0, 0, 0) matching_blocks @ [(la, lb, 0)])"

text \<open>
  \<^verbatim>\<open>
  def _calculate_ratio(matches, length):
      if length: return 2.0 * matches / length
      return 1.0

  def ratio(self):
      matches = sum(triple[-1] for triple in self.get_matching_blocks())
      return _calculate_ratio(matches, len(self.a) + len(self.b))
  \<close>
  The ratio is the exact quotient. Python rounds it to the nearest double; rounding is
  monotone, and a quotient with a denominator below \<open>10\<^sup>1\<^sup>5\<close> that differs from the
  threshold \<open>3/5\<close> differs from it by more than the rounding error, so the comparison
  with the threshold \<^verbatim>\<open>0.6\<close> has the same outcome on the exact values.
\<close>

definition calculate_ratio :: "nat \<Rightarrow> nat \<Rightarrow> rat" where
  "calculate_ratio matches length' = (if length' \<noteq> 0 then 2 * of_nat matches / of_nat length' else 1)"

definition matches :: "'a list \<Rightarrow> 'a list \<Rightarrow> nat" where
  "matches a b = sum_list (map (\<lambda>(i, j, k). k) (get_matching_blocks a b))"

definition ratio :: "'a list \<Rightarrow> 'a list \<Rightarrow> rat" where
  "ratio a b = calculate_ratio (matches a b) (length a + length b)"

text \<open>
  \<^verbatim>\<open>
  def are_strings_similar(str1, str2, threshold=0.6):
      similarity = difflib.SequenceMatcher(None, str1, str2).ratio()
      return similarity >= threshold
  \<close>
\<close>

definition are_strings_similar :: "string \<Rightarrow> string \<Rightarrow> rat \<Rightarrow> bool" where
  "are_strings_similar str1 str2 threshold = (ratio str1 str2 \<ge> threshold)"

subsection \<open>The value normaliser\<close>

text \<open>
  The values \<^verbatim>\<open>fixDodgyThing\<close> receives are \<^verbatim>\<open>None\<close>, strings, integers and booleans.
  \<open>truthy\<close> is Python's truth value and \<open>str\<close> Python's \<^verbatim>\<open>str()\<close> on them.
\<close>

datatype pyval = PyNone | PyStr string | PyInt int | PyBool bool

fun truthy :: "pyval \<Rightarrow> bool" where
  "truthy PyNone = False"
| "truthy (PyStr s) = (s \<noteq> [])"
| "truthy (PyInt n) = (n \<noteq> 0)"
| "truthy (PyBool b) = b"

definition digit_char :: "nat \<Rightarrow> char" where
  "digit_char d = char_of (48 + d)"

function digits :: "nat \<Rightarrow> string" where
  "digits n = (if n < 10 then [digit_char n] else digits (n div 10) @ [digit_char (n mod 10)])"
  by pat_completeness auto
termination
  by (relation "measure id") auto

definition str_int :: "int \<Rightarrow> string" where
  "str_int n = (if n < 0 then CHR ''-'' # digits (nat (- n)) else digits (nat n))"

fun str :: "pyval \<Rightarrow> string" where
  "str PyNone = ''None''"
| "str (PyStr s) = s"
| "str (PyInt n) = str_int n"
| "str (PyBool b) = (if b then ''True'' else ''False'')"

text \<open>
  \<^verbatim>\<open>str.title()\<close> walks through the string: a character that follows a cased character
  is lower-cased, any other character is title-cased, which on ASCII is upper-casing.
  The cased characters of ASCII are the letters.

  Python cases the characters beyond ASCII by the Unicode tables, which are not part of
  this development: \<open>title\<close> is \<^verbatim>\<open>str.title()\<close> on ASCII text, and leaves every other
  character as it is. Beyond ASCII the two differ, and \<^verbatim>\<open>str.title()\<close> applied twice can
  differ from \<^verbatim>\<open>str.title()\<close> applied once. So whatever is proved from the way \<open>title\<close>
  works is stated for ASCII text: \<open>isascii\<close> is \<^verbatim>\<open>str.isascii()\<close>, and \<open>ascii_input\<close>
  holds of the inputs whose text is ASCII, which \<^verbatim>\<open>None\<close>, the integers and the booleans
  are.
\<close>

definition isupper :: "char \<Rightarrow> bool" where
  "isupper c = (65 \<le> (of_char c :: nat) \<and> (of_char c :: nat) \<le> 90)"

definition islower :: "char \<Rightarrow> bool" where
  "islower c = (97 \<le> (of_char c :: nat) \<and> (of_char c :: nat) \<le> 122)"

definition iscased :: "char \<Rightarrow> bool" where
  "iscased c = (isupper c \<or> islower c)"

definition tolower :: "char \<Rightarrow> char" where
  "tolower c = (if isupper c then char_of (of_char c + (32 :: nat)) else c)"

definition toupper :: "char \<Rightarrow> char" where
  "toupper c = (if islower c then char_of (of_char c - (32 :: nat)) else c)"

fun title_from :: "bool \<Rightarrow> string \<Rightarrow> string" where
  "title_from previous_is_cased [] = []"
| "title_from previous_is_cased (c # cs) =
     (if previous_is_cased then tolower c else toupper c) # title_from (iscased c) cs"

definition title :: "string \<Rightarrow> string" where
  "title s = title_from False s"

definition isascii :: "string \<Rightarrow> bool" where
  "isascii s = (\<forall>c \<in> set s. (of_char c :: nat) < 128)"

fun ascii_input :: "pyval \<Rightarrow> bool" where
  "ascii_input (PyStr s) = isascii s"
| "ascii_input _ = True"

text \<open>
  \<^verbatim>\<open>
  def fixDodgyThing (value : str, legit_values : list[str] | str = None) -> str:
      if isinstance(legit_values,str):
          legit_values = [legit_values,]
      if not value:
          value = 'None Supplied'
      elif not isinstance(value,str):
          value = str(value)
      value = value.title()
      if legit_values and value not in legit_values:
          for l in legit_values:
              if are_strings_similar(value,l):
                  value = l
                  break
      return value
  \<close>
  \<open>legit_list\<close> is the vocabulary after the first statement, with the absent vocabulary
  as the empty list (both are falsy). \<open>first_similar\<close> is the loop; it calls
  \<^verbatim>\<open>are_strings_similar\<close> with the default threshold \<^verbatim>\<open>0.6\<close>. \<open>fixDodgyThing_value\<close> is
  the variable \<^verbatim>\<open>value\<close> after \<^verbatim>\<open>value = value.title()\<close>.
\<close>

datatype legit = LegitNone | LegitStr string | LegitList "string list"

fun legit_list :: "legit \<Rightarrow> string list" where
  "legit_list LegitNone = []"
| "legit_list (LegitStr s) = [s]"
| "legit_list (LegitList ls) = ls"

fun first_similar :: "string \<Rightarrow> string list \<Rightarrow> string" where
  "first_similar v [] = v"
| "first_similar v (l # ls) =
     (if are_strings_similar v l (3 / 5) then l else first_similar v ls)"

definition fixDodgyThing_value :: "pyval \<Rightarrow> string" where
  "fixDodgyThing_value v =
     title (if \<not> truthy v then ''None Supplied''
            else case v of PyStr s \<Rightarrow> s | _ \<Rightarrow> str v)"

definition fixDodgyThing :: "pyval \<Rightarrow> legit \<Rightarrow> string" where
  "fixDodgyThing v legit_values =
     (let legit_values = legit_list legit_values;
          v = fixDodgyThing_value v
      in if legit_values \<noteq> [] \<and> v \<notin> set legit_values
         then first_similar v legit_values
         else v)"

text \<open>
  \<^verbatim>\<open>
  def fixDodgyStatuses (status):
      return fixDodgyThing(status, ['Completed','Discontinued','Enrolled'])
  def fixDodgyAssessLevel (assessLevel):
      return fixDodgyThing(assessLevel, ['Consolidated','Demonstrated'])
  \<close>
\<close>

definition fixDodgyStatuses :: "pyval \<Rightarrow> string" where
  "fixDodgyStatuses status =
     fixDodgyThing status (LegitList [''Completed'', ''Discontinued'', ''Enrolled''])"

definition fixDodgyAssessLevel :: "pyval \<Rightarrow> string" where
  "fixDodgyAssessLevel assessLevel =
     fixDodgyThing assessLevel (LegitList [''Consolidated'', ''Demonstrated''])"

subsection \<open>Join conditions\<close>

text \<open>
  A join condition is a column expression that the engine evaluates on a pair of a fact
  row and a map row. The expressions the module builds use column references, \<open>=\<close>,
  \<open>IS NULL\<close>, \<open>AND\<close> and \<open>OR\<close>. A row is read through an environment that gives each
  qualified column name its value, \<open>None\<close> being SQL's \<open>NULL\<close>. The engine evaluates
  them in SQL's three-valued logic: a comparison with \<open>NULL\<close> is \<open>NULL\<close>, \<open>IS NULL\<close> is
  never \<open>NULL\<close>, and a join keeps a pair of rows only when the condition is \<open>TRUE\<close>.
\<close>

datatype col = Col string

datatype cond = Eq col col | IsNull col | And cond cond | Or cond cond

fun and3 :: "bool option \<Rightarrow> bool option \<Rightarrow> bool option" where
  "and3 (Some False) _ = Some False"
| "and3 _ (Some False) = Some False"
| "and3 (Some True) (Some True) = Some True"
| "and3 _ _ = None"

fun or3 :: "bool option \<Rightarrow> bool option \<Rightarrow> bool option" where
  "or3 (Some True) _ = Some True"
| "or3 _ (Some True) = Some True"
| "or3 (Some False) (Some False) = Some False"
| "or3 _ _ = None"

fun col_value :: "(string \<Rightarrow> 'v option) \<Rightarrow> col \<Rightarrow> 'v option" where
  "col_value env (Col name) = env name"

fun eval_cond :: "(string \<Rightarrow> 'v option) \<Rightarrow> cond \<Rightarrow> bool option" where
  "eval_cond env (Eq c d) =
     (case (col_value env c, col_value env d) of
        (Some x, Some y) \<Rightarrow> Some (x = y)
      | _ \<Rightarrow> None)"
| "eval_cond env (IsNull c) = Some (col_value env c = None)"
| "eval_cond env (And p q) = and3 (eval_cond env p) (eval_cond env q)"
| "eval_cond env (Or p q) = or3 (eval_cond env p) (eval_cond env q)"

definition row_matches :: "cond \<Rightarrow> (string \<Rightarrow> 'v option) \<Rightarrow> bool" where
  "row_matches c env = (eval_cond env c = Some True)"

text \<open>
  \<^verbatim>\<open>
  def escapeName (name : str) -> str:
      if '.' in name:
          parts = name.split('.')
          return '.'.join([escapeName(p) for p in parts])
      elif '`' in name:
          return name
      elif ' ' in name or '-' in name:
          return f"`{name}`"
      else:
          return name
  \<close>
  The functions that put a name into SQL text (\<^verbatim>\<open>getSQL\<close>, \<^verbatim>\<open>selectTable\<close>,
  \<^verbatim>\<open>readTable\<close>) pass it through \<^verbatim>\<open>escapeName\<close> first. The recursive calls are on
  parts without a dot, which take one of the last three branches: \<open>escape_part\<close>.
  \<open>split_dot\<close> is \<^verbatim>\<open>name.split('.')\<close> and \<open>join_dot\<close> is \<^verbatim>\<open>'.'.join\<close>.
\<close>

definition escape_part :: "string \<Rightarrow> string" where
  "escape_part name =
     (if CHR 0x60 \<in> set name then name
      else if CHR '' '' \<in> set name \<or> CHR ''-'' \<in> set name then [CHR 0x60] @ name @ [CHR 0x60]
      else name)"

fun split_dot :: "string \<Rightarrow> string \<Rightarrow> string list" where
  "split_dot part [] = [part]"
| "split_dot part (c # cs) =
     (if c = CHR ''.'' then part # split_dot [] cs else split_dot (part @ [c]) cs)"

fun join_dot :: "string list \<Rightarrow> string" where
  "join_dot [] = []"
| "join_dot [p] = p"
| "join_dot (p # ps) = p @ ''.'' @ join_dot ps"

definition escapeName :: "string \<Rightarrow> string" where
  "escapeName name =
     (if CHR ''.'' \<in> set name then join_dot (map escape_part (split_dot [] name))
      else escape_part name)"

text \<open>
  \<^verbatim>\<open>
  def getJoinCondition (factCol, mapCol = None):
      if not mapCol:
          mapCol = factCol
      return F.expr(f"""
      (fact.{factCol} = map.{mapCol}
       OR (fact.{factCol} IS NULL AND map.{mapCol} IS NULL)
      )""")
  \<close>
  \<open>getJoinCondition_sql\<close> is the text of the f-string: the names are put into it as
  they are. An absent and an empty \<open>mapCol\<close> are both falsy.
\<close>

definition getJoinCondition_sql :: "string \<Rightarrow> string option \<Rightarrow> string" where
  "getJoinCondition_sql factCol mapCol =
     (let mapCol = (case mapCol of None \<Rightarrow> factCol
                    | Some m \<Rightarrow> if m = [] then factCol else m)
      in [CHR 0x0A]
         @ ''    (fact.'' @ factCol @ '' = map.'' @ mapCol @ [CHR 0x0A]
         @ ''     OR (fact.'' @ factCol @ '' IS NULL AND map.'' @ mapCol @ '' IS NULL)''
         @ [CHR 0x0A]
         @ ''    )'')"

text \<open>
  \<^verbatim>\<open>F.expr\<close> has the engine parse the text, and raises a \<^verbatim>\<open>ParseException\<close> when it is
  not an expression. \<open>expr\<close> is the engine's parser for the part of its expression
  language that the text above is written in: column references (names joined by
  dots, a name being a word of letters, digits and underscores, or any text between
  backquotes), \<open>=\<close>, \<open>IS NULL\<close>, \<open>AND\<close>, \<open>OR\<close> and parentheses, \<open>AND\<close> binding tighter
  than \<open>OR\<close>, keywords in either case. A text outside that part is not a condition on
  column references, and \<open>expr\<close> rejects it.

  \<open>tokenize\<close> cuts the text into tokens, \<open>colref\<close> reads a column reference, \<open>predicate\<close> a
  comparison or a null test, and \<open>parse\<close> the three levels of the expression. The test
  \<open>length rest' < length toks\<close> in \<open>parse\<close> is always true (what a level leaves over is
  a part of what it was given); the termination proof uses it.
\<close>

datatype token = Word string | Quoted string | Dot | Equals | LParen | RParen | Other char

datatype lexmode = Plain string | InQuote string

definition word_char :: "char \<Rightarrow> bool" where
  "word_char c = (isupper c \<or> islower c \<or> c = CHR ''_''
                  \<or> (48 \<le> (of_char c :: nat) \<and> (of_char c :: nat) \<le> 57))"

definition white_space :: "char \<Rightarrow> bool" where
  "white_space c = (c = CHR '' '' \<or> c = CHR 0x09 \<or> c = CHR 0x0A \<or> c = CHR 0x0D)"

definition flush :: "string \<Rightarrow> token list" where
  "flush word = (if word = [] then [] else [Word word])"

definition symbol :: "char \<Rightarrow> token" where
  "symbol c = (if c = CHR ''.'' then Dot else if c = CHR ''='' then Equals
               else if c = CHR ''('' then LParen else if c = CHR '')'' then RParen
               else Other c)"

fun tokenize :: "lexmode \<Rightarrow> string \<Rightarrow> token list" where
  "tokenize (Plain word) [] = flush word"
| "tokenize (InQuote name) [] = [Other (CHR 0x60)]"
| "tokenize (InQuote name) (c # cs) =
     (if c = CHR 0x60 then Quoted name # tokenize (Plain []) cs else tokenize (InQuote (name @ [c])) cs)"
| "tokenize (Plain word) (c # cs) =
     (if word_char c then tokenize (Plain (word @ [c])) cs
      else flush word @
        (if white_space c then tokenize (Plain []) cs
         else if c = CHR 0x60 then tokenize (InQuote []) cs
         else symbol c # tokenize (Plain []) cs))"

fun name_of :: "token \<Rightarrow> string option" where
  "name_of (Word w) = Some w"
| "name_of (Quoted q) = Some q"
| "name_of _ = None"

fun colref :: "string \<Rightarrow> token list \<Rightarrow> string \<times> token list" where
  "colref name (Dot # t # rest) =
     (case name_of t of Some part \<Rightarrow> colref (name @ ''.'' @ part) rest
      | None \<Rightarrow> (name, Dot # t # rest))"
| "colref name toks = (name, toks)"

definition keyword :: "string \<Rightarrow> token \<Rightarrow> bool" where
  "keyword k t = (case t of Word w \<Rightarrow> map toupper w = k | _ \<Rightarrow> False)"

definition predicate :: "token list \<Rightarrow> (cond \<times> token list) option" where
  "predicate toks =
     (case toks of
        [] \<Rightarrow> None
      | t # rest \<Rightarrow>
          (case name_of t of
             None \<Rightarrow> None
           | Some first \<Rightarrow>
               (case colref first rest of
                  (l, Equals # t' # rest') \<Rightarrow>
                    (case name_of t' of
                       None \<Rightarrow> None
                     | Some first' \<Rightarrow>
                         (case colref first' rest' of
                            (r, rest'') \<Rightarrow> Some (Eq (Col l) (Col r), rest'')))
                | (l, t1 # t2 # rest') \<Rightarrow>
                    if keyword ''IS'' t1 \<and> keyword ''NULL'' t2
                    then Some (IsNull (Col l), rest')
                    else None
                | _ \<Rightarrow> None)))"

datatype level = OrLevel | AndLevel | Primary

function parse :: "level \<Rightarrow> token list \<Rightarrow> (cond \<times> token list) option" where
  "parse Primary toks =
     (case toks of
        LParen # rest \<Rightarrow>
          (case parse OrLevel rest of
             Some (e, RParen # rest') \<Rightarrow> Some (e, rest')
           | _ \<Rightarrow> None)
      | _ \<Rightarrow> predicate toks)"
| "parse AndLevel toks =
     (case parse Primary toks of
        None \<Rightarrow> None
      | Some (l, rest) \<Rightarrow>
          (case rest of
             t # rest' \<Rightarrow>
               if keyword ''AND'' t \<and> length rest' < length toks
               then (case parse AndLevel rest' of
                       None \<Rightarrow> None
                     | Some (r, rest'') \<Rightarrow> Some (And l r, rest''))
               else Some (l, rest)
           | [] \<Rightarrow> Some (l, rest)))"
| "parse OrLevel toks =
     (case parse AndLevel toks of
        None \<Rightarrow> None
      | Some (l, rest) \<Rightarrow>
          (case rest of
             t # rest' \<Rightarrow>
               if keyword ''OR'' t \<and> length rest' < length toks
               then (case parse OrLevel rest' of
                       None \<Rightarrow> None
                     | Some (r, rest'') \<Rightarrow> Some (Or l r, rest''))
               else Some (l, rest)
           | [] \<Rightarrow> Some (l, rest)))"
  by pat_completeness auto
termination
  by (relation "measure (\<lambda>(lv, toks). 3 * length toks
                   + (case lv of OrLevel \<Rightarrow> 2 | AndLevel \<Rightarrow> 1 | Primary \<Rightarrow> 0))")
     auto

datatype parse_error = ParseException

definition expr :: "string \<Rightarrow> parse_error + cond" where
  "expr text = (case parse OrLevel (tokenize (Plain []) text) of
                  Some (e, []) \<Rightarrow> Inr e
                | _ \<Rightarrow> Inl ParseException)"

definition getJoinCondition :: "string \<Rightarrow> string option \<Rightarrow> parse_error + cond" where
  "getJoinCondition factCol mapCol = expr (getJoinCondition_sql factCol mapCol)"

text \<open>
  A plain name is a name that needs no quoting in SQL text: a word that does not start
  with a digit.
\<close>

definition plain_name :: "string \<Rightarrow> bool" where
  "plain_name name =
     (name \<noteq> [] \<and> (\<forall>c \<in> set name. word_char c)
      \<and> \<not> (48 \<le> (of_char (hd name) :: nat) \<and> (of_char (hd name) :: nat) \<le> 57))"

text \<open>
  The condition \<^verbatim>\<open>simpleMap\<close> builds inline:
  \<^verbatim>\<open>
  join_condition = (F.col(f"map.{joinCol}") == F.col(f"fact.{joinCol}"))
                 | (F.col(f"map.{joinCol}").isNull() & F.col(f"fact.{joinCol}").isNull())
  \<close>
\<close>

definition simpleMap_join_condition :: "string \<Rightarrow> cond" where
  "simpleMap_join_condition joinCol =
     Or (Eq (Col (''map.'' @ joinCol)) (Col (''fact.'' @ joinCol)))
        (And (IsNull (Col (''map.'' @ joinCol))) (IsNull (Col (''fact.'' @ joinCol))))"

text \<open>
  \<open>key_env joinCol l r\<close> is a pair of rows whose fact row has the key value \<open>l\<close> and
  whose map row has the key value \<open>r\<close>.
\<close>

definition key_env :: "string \<Rightarrow> 'v option \<Rightarrow> 'v option \<Rightarrow> (string \<Rightarrow> 'v option)" where
  "key_env joinCol l r =
     (\<lambda>name. if name = ''fact.'' @ joinCol then l
             else if name = ''map.'' @ joinCol then r else None)"

subsection \<open>The join wrapper\<close>

text \<open>
  \<^verbatim>\<open>simpleMap\<close> works on data frames of the external engine. The engine is a parameter
  of the model: a record of the operations \<^verbatim>\<open>simpleMap\<close> calls, over any type \<open>'df\<close>
  of data frames. \<^verbatim>\<open>select\<close>, \<^verbatim>\<open>join\<close> and \<^verbatim>\<open>count\<close> can raise.

  Exceptions are values. \<open>exc_args e\<close> is \<^verbatim>\<open>e.args\<close>, what the exception carries:
  \<^verbatim>\<open>raise Exception(msg)\<close> carries the message, the bare \<^verbatim>\<open>raise ValueError\<close> carries
  nothing.
\<close>

datatype exc = Exception string | ValueError | IndexError | AnalysisException string

fun exc_args :: "exc \<Rightarrow> string list" where
  "exc_args (Exception msg) = [msg]"
| "exc_args ValueError = []"
| "exc_args IndexError = [''list index out of range'']"
| "exc_args (AnalysisException msg) = [msg]"

record 'df engine =
  df_columns :: "'df \<Rightarrow> string list"
  df_count :: "'df \<Rightarrow> exc + nat"
  df_alias :: "'df \<Rightarrow> string \<Rightarrow> 'df"
  df_hint :: "'df \<Rightarrow> string \<Rightarrow> 'df"
  df_select :: "'df \<Rightarrow> string list \<Rightarrow> exc + 'df"
  df_join :: "'df \<Rightarrow> 'df \<Rightarrow> cond \<Rightarrow> string \<Rightarrow> exc + 'df"

text \<open>
  \<^verbatim>\<open>
  def simpleMap (factDF, metadataDF, joinCol, joinType = "inner"):
      aliasedFact = factDF.alias('fact')
      indexCol : str = metadataDF.columns[0]
      theMap = metadataDF.select([indexCol,joinCol]).alias("map")
      factCols = aliasedFact.columns
      if joinCol not in factCols:
          if indexCol in factCols:
              print (f"{joinCol} not in factDF - already replaced by {indexCol}")
              return factDF
          else:
              raise Exception (f"{joinCol} not in factDF")
      elif indexCol in factCols:
          raise Exception (f"{indexCol} already in factDF. This shouldn't happen")
      else:
          before = factDF.count()
          join_condition = ...
          selectCols = insertColumnAndAlias(factCols,joinCol,indexCol,theMap.columns)
          aliasedFact = aliasedFact.join(other = theMap.hint("broadcast"),
                                         on = join_condition,
                                         how = joinType).select(selectCols)
          after = aliasedFact.count()
          if not before==after:
              print ("*"*80)
              print ("*"*80)
              print (f"{joinCol} : {before} - {after}")
              print ("*"*80)
              print ("*"*80)
              raise ValueError
          return aliasedFact
  \<close>
  The result is what was printed and either the exception raised or the data frame
  returned. \<open>simpleMap_join\<close> is the last \<^verbatim>\<open>else\<close> branch.
\<close>

definition stars :: printed where
  "stars = Line (replicate 80 (CHR ''*''))"

definition simpleMap_join ::
    "'df engine \<Rightarrow> 'df \<Rightarrow> 'df \<Rightarrow> 'df \<Rightarrow> string list \<Rightarrow> string \<Rightarrow> string \<Rightarrow> string
     \<Rightarrow> printed list \<times> (exc + 'df)" where
  "simpleMap_join E factDF aliasedFact theMap factCols indexCol joinCol joinType =
     (case df_count E factDF of
        Inl e \<Rightarrow> ([], Inl e)
      | Inr before \<Rightarrow>
          let join_condition = simpleMap_join_condition joinCol;
              (out, selectCols) =
                 insertColumnAndAlias factCols joinCol indexCol (Some (df_columns E theMap))
          in case df_join E aliasedFact (df_hint E theMap ''broadcast'') join_condition joinType of
               Inl e \<Rightarrow> (out, Inl e)
             | Inr joined \<Rightarrow>
                 (case df_select E joined selectCols of
                    Inl e \<Rightarrow> (out, Inl e)
                  | Inr aliasedFact \<Rightarrow>
                      (case df_count E aliasedFact of
                         Inl e \<Rightarrow> (out, Inl e)
                       | Inr after \<Rightarrow>
                           if before \<noteq> after
                           then (out @ [stars, stars,
                                        Line (joinCol @ '' : '' @ str (PyInt (int before))
                                              @ '' - '' @ str (PyInt (int after))),
                                        stars, stars],
                                 Inl ValueError)
                           else (out, Inr aliasedFact))))"

definition simpleMap ::
    "'df engine \<Rightarrow> 'df \<Rightarrow> 'df \<Rightarrow> string \<Rightarrow> string \<Rightarrow> printed list \<times> (exc + 'df)" where
  "simpleMap E factDF metadataDF joinCol joinType =
     (let aliasedFact = df_alias E factDF ''fact''
      in case df_columns E metadataDF of
           [] \<Rightarrow> ([], Inl IndexError)
         | indexCol # _ \<Rightarrow>
             (case df_select E metadataDF [indexCol, joinCol] of
                Inl e \<Rightarrow> ([], Inl e)
              | Inr selected \<Rightarrow>
                  let theMap = df_alias E selected ''map'';
                      factCols = df_columns E aliasedFact
                  in if joinCol \<notin> set factCols then
                       if indexCol \<in> set factCols
                       then ([Line (joinCol @ '' not in factDF - already replaced by '' @ indexCol)],
                             Inr factDF)
                       else ([], Inl (Exception (joinCol @ '' not in factDF'')))
                     else if indexCol \<in> set factCols
                       then ([], Inl (Exception (indexCol
                                @ '' already in factDF. This shouldn'' @ [CHR 0x27] @ ''t happen'')))
                     else simpleMap_join E factDF aliasedFact theMap factCols indexCol joinCol joinType))"

text \<open>
  An engine to run \<^verbatim>\<open>simpleMap\<close> on: a table is a list of columns, each with the alias
  of its table and its name, and a list of rows of nullable integers. A name selects
  the one column with that name, or with that alias and name when it is written
  \<open>alias.name\<close>. The joins are the inner and the left join.
\<close>

record table =
  t_cols :: "(string \<times> string) list"
  t_rows :: "int option list list"

definition split_name :: "string \<Rightarrow> string option \<times> string" where
  "split_name name =
     (if CHR ''.'' \<in> set name
      then (Some (takeWhile (\<lambda>c. c \<noteq> CHR ''.'') name), tl (dropWhile (\<lambda>c. c \<noteq> CHR ''.'') name))
      else (None, name))"

definition resolve :: "(string \<times> string) list \<Rightarrow> string \<Rightarrow> nat option" where
  "resolve cols name =
     (case split_name name of (q, n) \<Rightarrow>
        (case filter (\<lambda>i. snd (cols ! i) = n \<and> (case q of None \<Rightarrow> True | Some q \<Rightarrow> fst (cols ! i) = q))
                     [0..<length cols] of
           [i] \<Rightarrow> Some i
         | _ \<Rightarrow> None))"

definition list_select :: "table \<Rightarrow> string list \<Rightarrow> exc + table" where
  "list_select t names =
     (case filter (\<lambda>n. resolve (t_cols t) n = None) names of
        n # _ \<Rightarrow> Inl (AnalysisException n)
      | [] \<Rightarrow>
          let idxs = map (\<lambda>n. the (resolve (t_cols t) n)) names
          in Inr \<lparr> t_cols = map (\<lambda>i. t_cols t ! i) idxs,
                   t_rows = map (\<lambda>row. map (\<lambda>i. row ! i) idxs) (t_rows t) \<rparr>)"

definition row_env :: "(string \<times> string) list \<Rightarrow> int option list \<Rightarrow> string \<Rightarrow> int option" where
  "row_env cols row name = (case resolve cols name of None \<Rightarrow> None | Some i \<Rightarrow> row ! i)"

definition list_join :: "table \<Rightarrow> table \<Rightarrow> cond \<Rightarrow> string \<Rightarrow> exc + table" where
  "list_join l r c how =
     (let cols = t_cols l @ t_cols r;
          matched = (\<lambda>lrow. map (\<lambda>rrow. lrow @ rrow)
                       (filter (\<lambda>rrow. row_matches c (row_env cols (lrow @ rrow))) (t_rows r)))
      in if how = ''inner''
         then Inr \<lparr> t_cols = cols, t_rows = concat (map matched (t_rows l)) \<rparr>
         else if how = ''left''
         then Inr \<lparr> t_cols = cols,
                    t_rows = concat (map (\<lambda>lrow. if matched lrow = []
                                                  then [lrow @ replicate (length (t_cols r)) None]
                                                  else matched lrow) (t_rows l)) \<rparr>
         else Inl (AnalysisException how))"

definition list_engine :: "table engine" where
  "list_engine =
     \<lparr> df_columns = (\<lambda>t. map snd (t_cols t)),
       df_count = (\<lambda>t. Inr (length (t_rows t))),
       df_alias = (\<lambda>t q. t \<lparr> t_cols := map (\<lambda>(_, n). (q, n)) (t_cols t) \<rparr>),
       df_hint = (\<lambda>t h. t),
       df_select = list_select,
       df_join = list_join \<rparr>"

definition facts :: table where
  "facts = \<lparr> t_cols = [('''', ''a''), ('''', ''k''), ('''', ''b'')],
             t_rows = [[Some 1, Some 7, Some 3], [Some 2, None, Some 4]] \<rparr>"

definition replaced :: table where
  "replaced = \<lparr> t_cols = [('''', ''a''), ('''', ''id''), ('''', ''b'')],
                t_rows = [[Some 1, Some 100, Some 3]] \<rparr>"

definition collided :: table where
  "collided = \<lparr> t_cols = [('''', ''a''), ('''', ''k''), ('''', ''id'')],
                t_rows = [[Some 1, Some 7, Some 100]] \<rparr>"

definition lookup :: table where
  "lookup = \<lparr> t_cols = [('''', ''id''), ('''', ''k''), ('''', ''descr'')],
              t_rows = [[Some 100, Some 7, Some 0], [Some 101, None, Some 0]] \<rparr>"

definition lookup_dup :: table where
  "lookup_dup = \<lparr> t_cols = [('''', ''id''), ('''', ''k'')],
                  t_rows = [[Some 100, Some 7], [Some 101, Some 7], [Some 102, None]] \<rparr>"

section \<open>Properties\<close>

subsection \<open>The list splicing helper\<close>

text \<open>
  C9, as stated, promises a plain positional replacement when \<open>old\<close> is present and
  \<open>new\<close> is not. On \<open>[a, b]\<close> with \<open>old = a\<close> and \<open>new = x\<close> the helper returns
  \<open>[x, b, a]\<close>: the old value is appended again behind the replaced list, so the result
  is not \<open>[x, b]\<close>.
\<close>

theorem insertValueIntoList_keeps_old_counterexample:
  "insertValueIntoList [''a'', ''b''] ''a'' ''x'' = [''x'', ''b'', ''a'']
   \<and> insertValueIntoList [''a'', ''b''] ''a'' ''x'' \<noteq> replaceValueInList [''a'', ''b''] ''a'' ''x''"
  by (simp add: insertValueIntoList_def replaceValueInList_def)

text \<open>
  C9, amended: if \<open>old\<close> is absent the helper returns the list with \<open>new\<close> appended at
  the end (whether or not \<open>new\<close> is already there); if \<open>old\<close> and \<open>new\<close> are both
  present it returns the list unchanged; if \<open>old\<close> is present and \<open>new\<close> is absent it
  returns the list with every \<open>old\<close> replaced by \<open>new\<close> in place, followed by \<open>old\<close>
  appended at the end.
\<close>

theorem insertValueIntoList_cases:
  "(old \<notin> set xs \<longrightarrow> insertValueIntoList xs old new = xs @ [new])
   \<and> (old \<in> set xs \<and> new \<in> set xs \<longrightarrow> insertValueIntoList xs old new = xs)
   \<and> (old \<in> set xs \<and> new \<notin> set xs \<longrightarrow>
        insertValueIntoList xs old new = replaceValueInList xs old new @ [old])"
  by (simp add: insertValueIntoList_def replaceValueInList_def)

theorem insertValueIntoList_cases_witness:
  "insertValueIntoList [''b'', ''c''] ''a'' ''x'' = [''b'', ''c'', ''x'']
   \<and> insertValueIntoList [''a'', ''x''] ''a'' ''x'' = [''a'', ''x'']
   \<and> insertValueIntoList [''b'', ''a'', ''c''] ''a'' ''x''
       = replaceValueInList [''b'', ''a'', ''c''] ''a'' ''x'' @ [''a'']"
  using insertValueIntoList_cases [of "''a''" "[''b'', ''c'']" "''x''"]
        insertValueIntoList_cases [of "''a''" "[''a'', ''x'']" "''x''"]
        insertValueIntoList_cases [of "''a''" "[''b'', ''a'', ''c'']" "''x''"]
  by simp

subsection \<open>Join conditions\<close>

lemma or3_Some [simp]: "or3 (Some a) (Some b) = Some (a \<or> b)"
  by (cases a; cases b) simp_all

lemma and3_Some [simp]: "and3 (Some a) (Some b) = Some (a \<and> b)"
  by (cases a; cases b) simp_all

lemma or3_None_left [simp]: "or3 None (Some b) = (if b then Some True else None)"
  by (cases b) simp_all

text \<open>
  C8: on every pair of a fact row and a map row, the join condition of \<^verbatim>\<open>simpleMap\<close>
  is true exactly when the join-key values of the two rows are equal non-null values
  or are both null.
\<close>

theorem simpleMap_join_condition_matches:
  "row_matches (simpleMap_join_condition joinCol) env
   = ((\<exists>v. env (''fact.'' @ joinCol) = Some v \<and> env (''map.'' @ joinCol) = Some v)
      \<or> (env (''fact.'' @ joinCol) = None \<and> env (''map.'' @ joinCol) = None))"
  by (cases "env (''fact.'' @ joinCol)"; cases "env (''map.'' @ joinCol)")
     (auto simp: row_matches_def simpleMap_join_condition_def)

theorem simpleMap_join_condition_matches_witness:
  "row_matches (simpleMap_join_condition ''k'') (key_env ''k'' (None :: int option) None)
   \<and> row_matches (simpleMap_join_condition ''k'') (key_env ''k'' (Some (7::int)) (Some 7))
   \<and> \<not> row_matches (simpleMap_join_condition ''k'') (key_env ''k'' (Some (7::int)) None)
   \<and> \<not> row_matches (simpleMap_join_condition ''k'') (key_env ''k'' (Some (7::int)) (Some 8))"
  using simpleMap_join_condition_matches [of "''k''" "key_env ''k'' (None :: int option) None"]
        simpleMap_join_condition_matches [of "''k''" "key_env ''k'' (Some (7::int)) (Some 7)"]
        simpleMap_join_condition_matches [of "''k''" "key_env ''k'' (Some (7::int)) None"]
        simpleMap_join_condition_matches [of "''k''" "key_env ''k'' (Some (7::int)) (Some 8)"]
  by (simp add: key_env_def)

lemma tokenize_word:
  "\<forall>ch \<in> set w. word_char ch \<Longrightarrow>
   tokenize (Plain acc) (w @ rest) = tokenize (Plain (acc @ w)) rest"
  by (induction w arbitrary: acc) simp_all

lemma tokenize_name:
  assumes "\<forall>ch \<in> set c. word_char ch" and "c \<noteq> []" and "\<not> word_char x"
  shows "tokenize (Plain []) (c @ x # rest) = Word c # tokenize (Plain []) (x # rest)"
  using assms tokenize_word [of c "[]" "x # rest"] by (simp add: flush_def)

lemma tokenize_getJoinCondition_sql:
  assumes "\<forall>ch \<in> set c. word_char ch" and "c \<noteq> []"
  shows "tokenize (Plain []) (getJoinCondition_sql c None)
         = [LParen, Word ''fact'', Dot, Word c, Equals, Word ''map'', Dot, Word c,
            Word ''OR'', LParen, Word ''fact'', Dot, Word c, Word ''IS'', Word ''NULL'',
            Word ''AND'', Word ''map'', Dot, Word c, Word ''IS'', Word ''NULL'', RParen, RParen]"
proof -
  have w: "\<not> word_char CHR '' ''" "\<not> word_char CHR 0x0A"
    by (simp_all add: word_char_def isupper_def islower_def)
  note n = tokenize_name [OF assms w(1)] tokenize_name [OF assms w(2)]
  show ?thesis
    by (simp add: getJoinCondition_sql_def n word_char_def isupper_def islower_def
          white_space_def flush_def symbol_def)
qed

text \<open>
  For a plain name the text of \<^verbatim>\<open>getJoinCondition\<close> is an expression, and it is true
  on the same pairs of rows as the condition that \<^verbatim>\<open>simpleMap\<close> builds.
\<close>

lemma getJoinCondition_plain_name:
  assumes "plain_name c"
  shows "getJoinCondition c None
         = Inr (Or (Eq (Col (''fact.'' @ c)) (Col (''map.'' @ c)))
                   (And (IsNull (Col (''fact.'' @ c))) (IsNull (Col (''map.'' @ c)))))"
proof -
  have c: "\<forall>ch \<in> set c. word_char ch" "c \<noteq> []"
    using assms by (simp_all add: plain_name_def)
  show ?thesis
    unfolding getJoinCondition_def expr_def tokenize_getJoinCondition_sql [OF c]
    by (simp add: predicate_def keyword_def toupper_def islower_def)
qed

lemma getJoinCondition_plain_name_matches:
  assumes "plain_name c" and "getJoinCondition c None = Inr e"
  shows "row_matches e env = row_matches (simpleMap_join_condition c) env"
  using assms(2) unfolding getJoinCondition_plain_name [OF assms(1)]
  by (cases "env (''fact.'' @ c)"; cases "env (''map.'' @ c)")
     (auto simp: row_matches_def simpleMap_join_condition_def)

text \<open>
  C10 holds of the two conditions as they are meant, and \<^verbatim>\<open>getJoinCondition\<close> breaks it
  for a column name with a space: it puts the name into the SQL text as it is, where
  \<^verbatim>\<open>getSQL\<close> and \<^verbatim>\<open>readTable\<close> pass a name through \<^verbatim>\<open>escapeName\<close> first. For the
  column \<open>Unit Code\<close> the text reads \<open>fact.Unit Code = map.Unit Code OR ...\<close>, which is
  not an expression, so \<^verbatim>\<open>F.expr\<close> raises and there is no predicate; the condition
  that \<^verbatim>\<open>simpleMap\<close> builds for the same column is true on equal keys. With the name
  escaped as \<^verbatim>\<open>escapeName\<close> escapes it, the text denotes the condition of the claim.
\<close>

theorem getJoinCondition_unescaped_name:
  "getJoinCondition_sql ''Unit Code'' None
     = [CHR 0x0A] @ ''    (fact.Unit Code = map.Unit Code'' @ [CHR 0x0A]
       @ ''     OR (fact.Unit Code IS NULL AND map.Unit Code IS NULL)'' @ [CHR 0x0A]
       @ ''    )''
   \<and> getJoinCondition ''Unit Code'' None = Inl ParseException
   \<and> row_matches (simpleMap_join_condition ''Unit Code'')
         (key_env ''Unit Code'' (Some (1::int)) (Some 1))
   \<and> escapeName ''Unit Code'' = [CHR 0x60] @ ''Unit Code'' @ [CHR 0x60]
   \<and> getJoinCondition (escapeName ''Unit Code'') None
       = Inr (Or (Eq (Col ''fact.Unit Code'') (Col ''map.Unit Code''))
                 (And (IsNull (Col ''fact.Unit Code'')) (IsNull (Col ''map.Unit Code''))))"
  by code_simp

subsection \<open>The similarity ratio\<close>

lemma b2j_Nil: "b2j [] x = []"
  by (simp add: b2j_def)

lemma scan_a_no_b: "scan_a a [] blo bhi is (j2len, best) = best"
  by (induction "is" arbitrary: j2len) (simp_all add: b2j_Nil)

lemma find_longest_match_no_b: "find_longest_match a [] 0 (length a) 0 0 = (0, 0, 0)"
  by (simp add: find_longest_match_def scan_a_no_b)

lemma find_longest_match_no_a: "find_longest_match [] b 0 0 0 (length b) = (0, 0, 0)"
  by (simp add: find_longest_match_def)

lemma matches_no_b: "matches a [] = 0"
  by (simp add: matches_def get_matching_blocks_def find_longest_match_no_b)

lemma matches_no_a: "matches [] b = 0"
  by (simp add: matches_def get_matching_blocks_def find_longest_match_no_a)

lemma not_similar_empty: "v \<noteq> [] \<Longrightarrow> \<not> are_strings_similar v [] (3 / 5)"
  by (simp add: are_strings_similar_def ratio_def matches_no_b calculate_ratio_def)

text \<open>
  C6, as stated, fails: matching \<open>tide\<close> against \<open>diet\<close> finds the block \<open>t\<close> first and
  nothing to the right of it, so the ratio is \<open>2/8\<close>; matching \<open>diet\<close> against \<open>tide\<close>
  finds \<open>d\<close> first and then \<open>e\<close> to the right of it, so the ratio is \<open>4/8\<close>. At the
  threshold \<open>0.5\<close> the two orders of the arguments get different answers.
\<close>

theorem ratio_not_symmetric_counterexample:
  "ratio ''tide'' ''diet'' = 1 / 4 \<and> ratio ''diet'' ''tide'' = 1 / 2
   \<and> \<not> are_strings_similar ''tide'' ''diet'' (1 / 2)
   \<and> are_strings_similar ''diet'' ''tide'' (1 / 2)"
  by code_simp

text \<open>
  C6, amended: the ratio of \<open>(a, b)\<close> is twice the number of matched characters
  \<open>matches a b\<close> over the total length of both strings, and the number of matched
  characters depends on the order of the arguments. So \<open>ratio a b = ratio b a\<close> holds
  exactly for the pairs with \<open>matches a b = matches b a\<close>; for those pairs
  \<open>are_strings_similar\<close> gives the same answer in both orders at every threshold; and
  every pair with an empty string is such a pair.
\<close>

theorem ratio_symmetric_iff:
  "(ratio a b = ratio b a) = (matches a b = matches b a)
   \<and> (matches a b = matches b a \<longrightarrow>
        are_strings_similar a b t = are_strings_similar b a t)
   \<and> (a = [] \<or> b = [] \<longrightarrow> matches a b = matches b a)"
proof -
  have 1: "(ratio a b = ratio b a) = (matches a b = matches b a)"
  proof (cases "length a + length b = 0")
    case True
    then show ?thesis by (simp add: ratio_def matches_no_a)
  next
    case False
    then have "(of_nat (length a) + of_nat (length b) :: rat) \<noteq> 0"
      by (metis of_nat_add of_nat_eq_0_iff)
    with False show ?thesis by (simp add: ratio_def calculate_ratio_def add.commute)
  qed
  have 2: "matches a b = matches b a \<longrightarrow> are_strings_similar a b t = are_strings_similar b a t"
    by (simp add: are_strings_similar_def ratio_def add.commute)
  have 3: "a = [] \<or> b = [] \<longrightarrow> matches a b = matches b a"
    by (auto simp: matches_no_a matches_no_b)
  from 1 2 3 show ?thesis by blast
qed

theorem ratio_symmetric_iff_witness:
  "ratio ''abcd'' ''bcde'' = ratio ''bcde'' ''abcd''
   \<and> are_strings_similar ''abcd'' ''bcde'' (3 / 5) = are_strings_similar ''bcde'' ''abcd'' (3 / 5)
   \<and> matches ''abcd'' '''' = matches '''' ''abcd''"
proof -
  have m: "matches ''abcd'' ''bcde'' = matches ''bcde'' ''abcd''" by code_simp
  show ?thesis
    using m ratio_symmetric_iff [of "''abcd''" "''bcde''" "3 / 5"]
      ratio_symmetric_iff [of "''abcd''" "''''" "3 / 5"]
    by blast
qed

subsection \<open>The value normaliser\<close>

lemma tolower_idem: "tolower (tolower c) = tolower c"
  by (auto simp: tolower_def isupper_def)

lemma toupper_idem: "toupper (toupper c) = toupper c"
  by (auto simp: toupper_def islower_def)

lemma iscased_tolower: "iscased (tolower c) = iscased c"
  by (auto simp: tolower_def iscased_def isupper_def islower_def)

lemma iscased_toupper: "iscased (toupper c) = iscased c"
  by (auto simp: toupper_def iscased_def isupper_def islower_def)

lemma title_from_idem: "isascii s \<Longrightarrow> title_from p (title_from p s) = title_from p s"
  by (induction s arbitrary: p)
     (simp_all add: tolower_idem toupper_idem iscased_tolower iscased_toupper isascii_def)

lemma title_idem: "isascii s \<Longrightarrow> title (title s) = title s"
  by (simp add: title_def title_from_idem)

lemma isascii_digits: "isascii (digits n)"
proof (induction n rule: digits.induct)
  case (1 n)
  have d: "(of_char (digit_char (n mod 10)) :: nat) < 128" "n < 10 \<Longrightarrow> (of_char (digit_char n) :: nat) < 128"
    by (simp_all add: digit_char_def)
  show ?case
  proof (cases "n < 10")
    case True
    with d show ?thesis
      by (subst digits.simps) (simp add: isascii_def del: digits.simps)
  next
    case False
    with 1 d show ?thesis
      by (subst digits.simps) (auto simp: isascii_def simp del: digits.simps)
  qed
qed

lemma isascii_str: "ascii_input v \<Longrightarrow> isascii (str v)"
proof (cases v)
  case (PyInt n)
  have "isascii (digits (nat (- n)))" "isascii (digits (nat n))"
    by (rule isascii_digits)+
  then show ?thesis
    using PyInt by (simp add: str_int_def isascii_def del: digits.simps)
qed (simp_all add: isascii_def)

lemma title_from_Nil_iff: "title_from p s = [] \<longleftrightarrow> s = []"
  by (cases s) simp_all

lemma title_Nil_iff: "title s = [] \<longleftrightarrow> s = []"
  by (simp add: title_def title_from_Nil_iff)

lemma digits_not_Nil: "digits n \<noteq> []"
  by (subst digits.simps) simp

lemma str_truthy_not_Nil: "truthy v \<Longrightarrow> str v \<noteq> []"
  by (cases v) (auto simp: str_int_def digits_not_Nil)

lemma title_None_Supplied: "title ''None Supplied'' = ''None Supplied''"
  by code_simp

lemma fixDodgyThing_value_truthy: "truthy v \<Longrightarrow> fixDodgyThing_value v = title (str v)"
  by (cases v) (simp_all add: fixDodgyThing_value_def)

lemma fixDodgyThing_value_falsy: "\<not> truthy v \<Longrightarrow> fixDodgyThing_value v = ''None Supplied''"
  by (simp add: fixDodgyThing_value_def title_None_Supplied)

lemma fixDodgyThing_value_not_Nil: "fixDodgyThing_value v \<noteq> []"
  by (cases "truthy v")
     (simp_all add: fixDodgyThing_value_truthy fixDodgyThing_value_falsy title_Nil_iff
        str_truthy_not_Nil)

lemma fixDodgyThing_value_title:
  "ascii_input v \<Longrightarrow> title (fixDodgyThing_value v) = fixDodgyThing_value v"
  by (cases "truthy v")
     (simp_all add: fixDodgyThing_value_truthy fixDodgyThing_value_falsy title_idem isascii_str
        title_None_Supplied)

lemma first_similar_cases:
  "first_similar v ls = v \<or> (first_similar v ls \<in> set ls \<and> are_strings_similar v (first_similar v ls) (3 / 5))"
  by (induction ls) auto

text \<open>
  C5, as stated, fails: the placeholder is substituted for every falsy input, not
  only for \<^verbatim>\<open>None\<close>. The number \<open>0\<close> and the empty string are not null, and the
  claim has them coerced to a string and title-cased, which gives \<open>0\<close> and the empty
  string; the code gives \<open>None Supplied\<close> for both.
\<close>

theorem fixDodgyThing_falsy_counterexample:
  "fixDodgyThing_value (PyInt 0) = ''None Supplied'' \<and> title (str (PyInt 0)) = ''0''
   \<and> fixDodgyThing_value (PyStr '''') = ''None Supplied'' \<and> title (str (PyStr '''')) = ''''"
  by code_simp

text \<open>
  C5, amended: if the input is falsy (\<^verbatim>\<open>None\<close>, the empty string, the number \<open>0\<close> or
  \<^verbatim>\<open>False\<close>), the value entering vocabulary matching is the placeholder
  \<open>None Supplied\<close>; for every other input, non-string values such as numbers included,
  the value is coerced to a string and title-cased before matching.
\<close>

theorem fixDodgyThing_value_cases:
  "(truthy v \<longleftrightarrow> v \<noteq> PyNone \<and> v \<noteq> PyStr [] \<and> v \<noteq> PyInt 0 \<and> v \<noteq> PyBool False)
   \<and> (\<not> truthy v \<longrightarrow> fixDodgyThing_value v = ''None Supplied'')
   \<and> (truthy v \<longrightarrow> fixDodgyThing_value v = title (str v))
   \<and> fixDodgyThing v V =
       (if legit_list V \<noteq> [] \<and> fixDodgyThing_value v \<notin> set (legit_list V)
        then first_similar (fixDodgyThing_value v) (legit_list V)
        else fixDodgyThing_value v)"
proof -
  have "truthy v \<longleftrightarrow> v \<noteq> PyNone \<and> v \<noteq> PyStr [] \<and> v \<noteq> PyInt 0 \<and> v \<noteq> PyBool False"
    by (cases v) auto
  then show ?thesis
    by (simp add: fixDodgyThing_value_truthy fixDodgyThing_value_falsy fixDodgyThing_def Let_def)
qed

theorem fixDodgyThing_value_cases_witness:
  "fixDodgyThing_value PyNone = ''None Supplied''
   \<and> fixDodgyThing_value (PyBool False) = ''None Supplied''
   \<and> fixDodgyThing_value (PyInt 42) = title (str (PyInt 42))
   \<and> fixDodgyThing_value (PyStr ''enrolled'') = title (str (PyStr ''enrolled''))"
  using fixDodgyThing_value_cases [of PyNone] fixDodgyThing_value_cases [of "PyBool False"]
    fixDodgyThing_value_cases [of "PyInt 42"] fixDodgyThing_value_cases [of "PyStr ''enrolled''"]
  by simp

text \<open>
  C4, as stated, fails on a non-null input that is falsy. The empty string is not null
  and its title-cased form is the empty string. With an empty vocabulary the claim
  returns it unchanged; with the vocabulary \<open>[Completed]\<close>, of which it is not a member
  and no entry of which is similar to it, the claim returns it unchanged as well. The
  code returns \<open>None Supplied\<close> both times.
\<close>

theorem fixDodgyThing_empty_string_counterexample:
  "title (str (PyStr '''')) = ''''
   \<and> fixDodgyThing (PyStr '''') (LegitList []) = ''None Supplied''
   \<and> \<not> are_strings_similar '''' ''Completed'' (3 / 5)
   \<and> fixDodgyThing (PyStr '''') (LegitList [''Completed'']) = ''None Supplied''"
  by code_simp

text \<open>
  C4, amended: for every truthy raw input (not null, not empty, not zero, not
  \<^verbatim>\<open>False\<close>) whose title-cased form is not a member of a non-empty vocabulary,
  \<^verbatim>\<open>fixDodgyThing\<close> returns the first entry of the vocabulary, in its given order, whose
  similarity ratio to the title-cased input is at least \<open>0.6\<close>; if no entry is, it
  returns the title-cased input; and if the vocabulary is empty or the title-cased
  input is a member, it returns the title-cased input.
\<close>

theorem fixDodgyThing_first_match:
  assumes "truthy v"
  shows "fixDodgyThing v V =
           (if legit_list V \<noteq> [] \<and> title (str v) \<notin> set (legit_list V)
            then case find (\<lambda>l. 3 / 5 \<le> ratio (title (str v)) l) (legit_list V) of
                   None \<Rightarrow> title (str v)
                 | Some l \<Rightarrow> l
            else title (str v))"
proof -
  have "first_similar w ls = (case find (\<lambda>l. 3 / 5 \<le> ratio w l) ls of None \<Rightarrow> w | Some l \<Rightarrow> l)"
    for w ls
    by (induction ls) (simp_all add: are_strings_similar_def)
  then show ?thesis
    using assms by (simp add: fixDodgyThing_def fixDodgyThing_value_truthy Let_def)
qed

theorem fixDodgyThing_first_match_witness:
  "fixDodgyThing (PyStr ''completd'') (LegitList [''Completed'', ''Discontinued'', ''Enrolled''])
     = ''Completed''
   \<and> fixDodgyThing (PyStr ''xyz'') (LegitList [''Completed'', ''Discontinued'', ''Enrolled''])
     = ''Xyz''
   \<and> fixDodgyThing (PyInt 12) (LegitList []) = ''12''"
proof -
  have t: "truthy (PyStr ''completd'')" "truthy (PyStr ''xyz'')" "truthy (PyInt 12)"
    by simp_all
  show ?thesis
    unfolding fixDodgyThing_first_match [OF t(1)] fixDodgyThing_first_match [OF t(2)]
      fixDodgyThing_first_match [OF t(3)]
    by code_simp
qed

text \<open>
  C7, as stated, fails for a vocabulary with an entry that is not in title case. With
  the vocabulary \<open>[AB]\<close> the input \<open>a b\<close> is title-cased to \<open>A B\<close>, whose ratio to \<open>AB\<close>
  is \<open>4/5\<close>, and is normalised to \<open>AB\<close>. Normalising \<open>AB\<close> again title-cases it to
  \<open>Ab\<close>, whose ratio to \<open>AB\<close> is \<open>2/4\<close>, and returns \<open>Ab\<close>. The string \<open>AB\<close> is in the
  vocabulary and is not returned unchanged.
\<close>

theorem fixDodgyThing_not_idempotent_counterexample:
  "fixDodgyThing (PyStr ''a b'') (LegitList [''AB'']) = ''AB''
   \<and> fixDodgyThing (PyStr ''AB'') (LegitList [''AB'']) = ''Ab''"
  by code_simp

text \<open>
  C7, amended: for every controlled vocabulary of ASCII strings in title case (each
  entry is its own title-cased form, as the entries of the two preset vocabularies
  are) and every input that is \<^verbatim>\<open>None\<close>, an integer, a boolean or an ASCII string,
  \<^verbatim>\<open>fixDodgyThing\<close> is idempotent, and when the input is truthy and its title-cased
  form is in the vocabulary, that title-cased form is returned.
\<close>

theorem fixDodgyThing_idempotent:
  assumes "\<forall>l \<in> set (legit_list V). isascii l \<and> title l = l"
    and "ascii_input v"
  shows "fixDodgyThing (PyStr (fixDodgyThing v V)) V = fixDodgyThing v V
       \<and> (truthy v \<and> title (str v) \<in> set (legit_list V) \<longrightarrow> fixDodgyThing v V = title (str v))"
proof -
  have member: "truthy v \<and> title (str v) \<in> set (legit_list V) \<longrightarrow> fixDodgyThing v V = title (str v)"
    by (simp add: fixDodgyThing_def fixDodgyThing_value_truthy Let_def)
  have "fixDodgyThing (PyStr (fixDodgyThing v V)) V = fixDodgyThing v V"
  proof -
  define t where "t = fixDodgyThing_value v"
  define ls where "ls = legit_list V"
  have t: "t \<noteq> []" "title t = t"
    using assms(2)
    by (simp_all add: t_def fixDodgyThing_value_not_Nil fixDodgyThing_value_title)
  have again: "\<And>r. r \<noteq> [] \<Longrightarrow> title r = r \<Longrightarrow> fixDodgyThing_value (PyStr r) = r"
    by (simp add: fixDodgyThing_value_def)
  show ?thesis
  proof (cases "ls \<noteq> [] \<and> t \<notin> set ls")
    case False
    then have r: "fixDodgyThing v V = t"
      by (auto simp: fixDodgyThing_def t_def ls_def Let_def)
    from False show ?thesis
      unfolding r by (auto simp: fixDodgyThing_def again t ls_def Let_def)
  next
    case True
    then have r: "fixDodgyThing v V = first_similar t ls"
      by (auto simp: fixDodgyThing_def t_def ls_def Let_def)
    consider "first_similar t ls = t"
      | "first_similar t ls \<in> set ls" "are_strings_similar t (first_similar t ls) (3 / 5)"
      using first_similar_cases by blast
    then show ?thesis
    proof cases
      case 1
      then show ?thesis
        unfolding r using True
        by (auto simp: fixDodgyThing_def again t ls_def Let_def)
    next
      case 2
      define l where "l = first_similar t ls"
      have "l \<noteq> []" using 2(2) not_similar_empty[OF t(1)] by (auto simp: l_def)
      moreover have "title l = l" using 2(1) assms(1) by (simp add: l_def ls_def)
      ultimately have "fixDodgyThing_value (PyStr l) = l" by (rule again)
      then show ?thesis
        unfolding r l_def[symmetric] using 2(1)
        by (simp add: fixDodgyThing_def l_def ls_def Let_def)
    qed
  qed
qed
  with member show ?thesis by blast
qed

theorem fixDodgyThing_idempotent_witness:
  "fixDodgyThing (PyStr (fixDodgyThing (PyStr ''completd'')
       (LegitList [''Completed'', ''Discontinued'', ''Enrolled''])))
     (LegitList [''Completed'', ''Discontinued'', ''Enrolled''])
   = fixDodgyThing (PyStr ''completd'') (LegitList [''Completed'', ''Discontinued'', ''Enrolled''])
   \<and> fixDodgyThing (PyStr ''enrolled'') (LegitList [''Completed'', ''Discontinued'', ''Enrolled''])
     = ''Enrolled''"
proof -
  have h: "\<forall>l \<in> set (legit_list (LegitList [''Completed'', ''Discontinued'', ''Enrolled''])).
             isascii l \<and> title l = l"
    by code_simp
  have a: "ascii_input (PyStr ''completd'')" "ascii_input (PyStr ''enrolled'')"
    by code_simp+
  have t: "truthy (PyStr ''enrolled'')
           \<and> title (str (PyStr ''enrolled''))
               \<in> set (legit_list (LegitList [''Completed'', ''Discontinued'', ''Enrolled'']))"
    by code_simp
  have e: "title (str (PyStr ''enrolled'')) = ''Enrolled''"
    by code_simp
  show ?thesis
    using fixDodgyThing_idempotent [OF h a(1)] fixDodgyThing_idempotent [OF h a(2)] t e
    by simp
qed

subsection \<open>The join wrapper\<close>

lemma insertColumnAndAlias_shape:
  assumes "valColumn \<in> set columns" and "indexColumn \<notin> set columns"
  shows "snd (insertColumnAndAlias columns valColumn indexColumn mapColumns) =
           map (\<lambda>c. if c = valColumn then ''map.'' @ indexColumn
                     else if CHR ''.'' \<notin> set c \<and> c \<in> set (case mapColumns of None \<Rightarrow> [] | Some m \<Rightarrow> m)
                          then ''fact.'' @ c else c) columns
           @ [''fact.'' @ valColumn]"
proof -
  have ne: "valColumn \<noteq> indexColumn" using assms by auto
  have cols: "insertValueIntoList columns valColumn indexColumn
                = map (\<lambda>item. if item = valColumn then indexColumn else item) columns @ [valColumn]"
    using assms by (simp add: insertValueIntoList_def)
  define aliased where
    "aliased = map (\<lambda>c. if c = valColumn then ''fact.'' @ c
                        else if c = indexColumn then ''map.'' @ c else c)
                 (insertValueIntoList columns valColumn indexColumn)"
  have aliased: "aliased = map (\<lambda>c. if c = valColumn then ''map.'' @ indexColumn else c) columns
                   @ [''fact.'' @ valColumn]"
    using assms ne by (auto simp: aliased_def cols)
  have more: "map (\<lambda>c. if CHR ''.'' \<notin> set c \<and> c \<in> set m then ''fact.'' @ c else c) aliased
              = map (\<lambda>c. if c = valColumn then ''map.'' @ indexColumn
                     else if CHR ''.'' \<notin> set c \<and> c \<in> set m then ''fact.'' @ c else c) columns
                @ [''fact.'' @ valColumn]" for m
    by (auto simp: aliased)
  have none: "aliased = map (\<lambda>c. if c = valColumn then ''map.'' @ indexColumn
                     else if CHR ''.'' \<notin> set c \<and> c \<in> set [] then ''fact.'' @ c else c) columns
                @ [''fact.'' @ valColumn]"
    by (simp add: aliased)
  show ?thesis
  proof (cases mapColumns)
    case None
    then show ?thesis
      using none by (simp add: insertColumnAndAlias_def aliased_def[symmetric] Let_def)
  next
    case (Some m)
    show ?thesis
    proof (cases "m = []")
      case True
      with Some show ?thesis
        using none by (simp add: insertColumnAndAlias_def aliased_def[symmetric] Let_def)
    next
      case False
      define aliasedMore where
        "aliasedMore = map (\<lambda>c. if CHR ''.'' \<notin> set c \<and> c \<in> set m then ''fact.'' @ c else c) aliased"
      have "snd (insertColumnAndAlias columns valColumn indexColumn mapColumns)
              = snd (if aliasedMore \<noteq> aliased then ([ListRepr aliasedMore], aliasedMore)
                     else ([], aliased))"
        unfolding insertColumnAndAlias_def Let_def Some aliased_def[symmetric]
        using False by (simp only: option.case if_False aliasedMore_def)
      also have "\<dots> = aliasedMore" by simp
      finally show ?thesis
        using more[of m] Some by (simp add: aliasedMore_def)
    qed
  qed
qed

text \<open>
  C3: when the lookup has a first column \<open>indexCol\<close> and the engine can select
  \<open>indexCol\<close> and \<open>joinCol\<close> from it, \<^verbatim>\<open>simpleMap\<close> decides on the columns of the left
  data frame alone. If \<open>joinCol\<close> is absent and \<open>indexCol\<close> is present, it prints a
  notice and returns the left data frame unchanged; if both are absent, it raises an
  exception whose message names \<open>joinCol\<close>; if both are present, it raises an exception
  that says the surrogate key is already there; otherwise it goes on to the join.
\<close>

theorem simpleMap_dispatch:
  assumes "df_columns E metadataDF = indexCol # others"
    and "df_select E metadataDF [indexCol, joinCol] = Inr selected"
    and "factCols = df_columns E (df_alias E factDF ''fact'')"
  shows "(joinCol \<notin> set factCols \<and> indexCol \<in> set factCols \<longrightarrow>
            simpleMap E factDF metadataDF joinCol joinType
              = ([Line (joinCol @ '' not in factDF - already replaced by '' @ indexCol)], Inr factDF))
       \<and> (joinCol \<notin> set factCols \<and> indexCol \<notin> set factCols \<longrightarrow>
            simpleMap E factDF metadataDF joinCol joinType
              = ([], Inl (Exception (joinCol @ '' not in factDF''))))
       \<and> (joinCol \<in> set factCols \<and> indexCol \<in> set factCols \<longrightarrow>
            simpleMap E factDF metadataDF joinCol joinType
              = ([], Inl (Exception (indexCol
                   @ '' already in factDF. This shouldn'' @ [CHR 0x27] @ ''t happen''))))
       \<and> (joinCol \<in> set factCols \<and> indexCol \<notin> set factCols \<longrightarrow>
            simpleMap E factDF metadataDF joinCol joinType
              = simpleMap_join E factDF (df_alias E factDF ''fact'') (df_alias E selected ''map'')
                  factCols indexCol joinCol joinType)"
  using assms by (simp add: simpleMap_def Let_def)

theorem simpleMap_dispatch_witness:
  "simpleMap list_engine replaced lookup ''k'' ''inner''
     = ([Line ''k not in factDF - already replaced by id''], Inr replaced)
   \<and> simpleMap list_engine facts lookup ''descr'' ''inner''
     = ([], Inl (Exception ''descr not in factDF''))
   \<and> simpleMap list_engine collided lookup ''k'' ''inner''
     = ([], Inl (Exception (''id already in factDF. This shouldn'' @ [CHR 0x27] @ ''t happen'')))
   \<and> simpleMap list_engine facts lookup ''k'' ''inner''
     = simpleMap_join list_engine facts (df_alias list_engine facts ''fact'')
         (df_alias list_engine
            \<lparr> t_cols = [('''', ''id''), ('''', ''k'')],
              t_rows = [[Some 100, Some 7], [Some 101, None]] \<rparr> ''map'')
         [''a'', ''k'', ''b''] ''id'' ''k'' ''inner''"
proof -
  have c: "df_columns list_engine lookup = ''id'' # [''k'', ''descr'']"
    by code_simp
  have sk: "df_select list_engine lookup [''id'', ''k'']
              = Inr \<lparr> t_cols = [('''', ''id''), ('''', ''k'')],
                      t_rows = [[Some 100, Some 7], [Some 101, None]] \<rparr>"
    by code_simp
  have sd: "df_select list_engine lookup [''id'', ''descr'']
              = Inr \<lparr> t_cols = [('''', ''id''), ('''', ''descr'')],
                      t_rows = [[Some 100, Some 0], [Some 101, Some 0]] \<rparr>"
    by code_simp
  have f: "[''a'', ''k'', ''b''] = df_columns list_engine (df_alias list_engine facts ''fact'')"
    by code_simp
  have r: "[''a'', ''id'', ''b''] = df_columns list_engine (df_alias list_engine replaced ''fact'')"
    by code_simp
  have x: "[''a'', ''k'', ''id''] = df_columns list_engine (df_alias list_engine collided ''fact'')"
    by code_simp
  show ?thesis
    using simpleMap_dispatch [OF c sk r, of "''inner''"]
      simpleMap_dispatch [OF c sd f, of "''inner''"]
      simpleMap_dispatch [OF c sk x, of "''inner''"]
      simpleMap_dispatch [OF c sk f, of "''inner''"]
    by simp
qed

text \<open>
  C1, as stated, fails in what the failure carries. With a lookup that has two rows for
  the key \<open>7\<close>, the two rows of the left data frame become three; \<^verbatim>\<open>simpleMap\<close> prints
  the line \<open>k : 2 - 3\<close> between lines of stars and raises a bare \<^verbatim>\<open>ValueError\<close>, whose
  arguments are empty: the exception carries neither the column name nor the counts.
\<close>

theorem simpleMap_bare_ValueError_counterexample:
  "simpleMap list_engine facts lookup_dup ''k'' ''inner''
     = ([stars, stars, Line ''k : 2 - 3'', stars, stars], Inl ValueError)
   \<and> exc_args ValueError = []"
  by code_simp

text \<open>
  C1, amended: whenever \<^verbatim>\<open>simpleMap\<close> proceeds past its precondition checks and the
  engine's count, join and select succeed, then, if the row count of the joined result
  differs from the row count of the left input, it prints the join column name and the
  before and after row counts (the line \<open>joinCol : before - after\<close>, framed by two lines
  of stars above and below) and fails with a bare \<^verbatim>\<open>ValueError\<close> that carries no
  data; if the counts are equal, the joined result is returned.
\<close>

theorem simpleMap_row_count_check:
  assumes "df_columns E metadataDF = indexCol # others"
    and "df_select E metadataDF [indexCol, joinCol] = Inr selected"
    and "factCols = df_columns E (df_alias E factDF ''fact'')"
    and "joinCol \<in> set factCols" and "indexCol \<notin> set factCols"
    and "df_count E factDF = Inr before"
    and "df_join E (df_alias E factDF ''fact'') (df_hint E (df_alias E selected ''map'') ''broadcast'')
           (simpleMap_join_condition joinCol) joinType = Inr joined"
    and "insertColumnAndAlias factCols joinCol indexCol
           (Some (df_columns E (df_alias E selected ''map''))) = (out, selectCols)"
    and "df_select E joined selectCols = Inr result"
    and "df_count E result = Inr after"
  shows "(before \<noteq> after \<longrightarrow>
            simpleMap E factDF metadataDF joinCol joinType
              = (out @ [stars, stars,
                        Line (joinCol @ '' : '' @ str (PyInt (int before)) @ '' - ''
                              @ str (PyInt (int after))),
                        stars, stars],
                 Inl ValueError)
            \<and> exc_args ValueError = [])
       \<and> (before = after \<longrightarrow>
            simpleMap E factDF metadataDF joinCol joinType = (out, Inr result))"
  using assms by (simp add: simpleMap_def simpleMap_join_def Let_def)

theorem simpleMap_row_count_check_witness:
  "simpleMap list_engine facts lookup_dup ''k'' ''inner''
     = ([] @ [stars, stars,
              Line (''k'' @ '' : '' @ str (PyInt (int 2)) @ '' - '' @ str (PyInt (int 3))),
              stars, stars],
        Inl ValueError)
   \<and> simpleMap list_engine facts lookup ''k'' ''inner''
     = ([], Inr \<lparr> t_cols = [(''fact'', ''a''), (''map'', ''id''), (''fact'', ''b''),
                             (''fact'', ''k'')],
                   t_rows = [[Some 1, Some 100, Some 3, Some 7],
                             [Some 2, Some 101, Some 4, None]] \<rparr>)"
proof -
  let ?sel = "\<lparr> t_cols = [('''', ''id''), ('''', ''k'')],
                 t_rows = [[Some 100, Some 7], [Some 101, None]] \<rparr>"
  let ?joined = "\<lparr> t_cols = [(''fact'', ''a''), (''fact'', ''k''), (''fact'', ''b''),
                               (''map'', ''id''), (''map'', ''k'')],
                    t_rows = [[Some 1, Some 7, Some 3, Some 100, Some 7],
                              [Some 2, None, Some 4, Some 101, None]] \<rparr>"
  let ?result = "\<lparr> t_cols = [(''fact'', ''a''), (''map'', ''id''), (''fact'', ''b''),
                               (''fact'', ''k'')],
                    t_rows = [[Some 1, Some 100, Some 3, Some 7],
                              [Some 2, Some 101, Some 4, None]] \<rparr>"
  let ?joined2 = "\<lparr> t_cols = [(''fact'', ''a''), (''fact'', ''k''), (''fact'', ''b''),
                                (''map'', ''id''), (''map'', ''k'')],
                     t_rows = [[Some 1, Some 7, Some 3, Some 100, Some 7],
                               [Some 1, Some 7, Some 3, Some 101, Some 7],
                               [Some 2, None, Some 4, Some 102, None]] \<rparr>"
  let ?result2 = "\<lparr> t_cols = [(''fact'', ''a''), (''map'', ''id''), (''fact'', ''b''),
                                (''fact'', ''k'')],
                     t_rows = [[Some 1, Some 100, Some 3, Some 7],
                               [Some 1, Some 101, Some 3, Some 7],
                               [Some 2, Some 102, Some 4, None]] \<rparr>"
  have f: "[''a'', ''k'', ''b''] = df_columns list_engine (df_alias list_engine facts ''fact'')"
    by code_simp
  have m: "''k'' \<in> set [''a'', ''k'', ''b'']" "''id'' \<notin> set [''a'', ''k'', ''b'']"
    by simp_all
  have b: "df_count list_engine facts = Inr 2"
    by code_simp
  have c: "df_columns list_engine lookup = ''id'' # [''k'', ''descr'']"
    by code_simp
  have s: "df_select list_engine lookup [''id'', ''k''] = Inr ?sel"
    by code_simp
  have j: "df_join list_engine (df_alias list_engine facts ''fact'')
             (df_hint list_engine (df_alias list_engine ?sel ''map'') ''broadcast'')
             (simpleMap_join_condition ''k'') ''inner'' = Inr ?joined"
    by code_simp
  have a: "insertColumnAndAlias [''a'', ''k'', ''b''] ''k'' ''id''
             (Some (df_columns list_engine (df_alias list_engine ?sel ''map'')))
           = ([], [''a'', ''map.id'', ''b'', ''fact.k''])"
    by code_simp
  have p: "df_select list_engine ?joined [''a'', ''map.id'', ''b'', ''fact.k''] = Inr ?result"
    by code_simp
  have n: "df_count list_engine ?result = Inr 2"
    by code_simp
  have c2: "df_columns list_engine lookup_dup = ''id'' # [''k'']"
    by code_simp
  have s2: "df_select list_engine lookup_dup [''id'', ''k''] = Inr lookup_dup"
    by code_simp
  have j2: "df_join list_engine (df_alias list_engine facts ''fact'')
             (df_hint list_engine (df_alias list_engine lookup_dup ''map'') ''broadcast'')
             (simpleMap_join_condition ''k'') ''inner'' = Inr ?joined2"
    by code_simp
  have a2: "insertColumnAndAlias [''a'', ''k'', ''b''] ''k'' ''id''
             (Some (df_columns list_engine (df_alias list_engine lookup_dup ''map'')))
           = ([], [''a'', ''map.id'', ''b'', ''fact.k''])"
    by code_simp
  have p2: "df_select list_engine ?joined2 [''a'', ''map.id'', ''b'', ''fact.k''] = Inr ?result2"
    by code_simp
  have n2: "df_count list_engine ?result2 = Inr 3"
    by code_simp
  show ?thesis
    using simpleMap_row_count_check [OF c2 s2 f m b j2 a2 p2 n2]
      simpleMap_row_count_check [OF c s f m b j a p n]
    by simp
qed

text \<open>
  C2, as stated, fails: the join column stays in the output. For the left columns
  \<open>a, k, b\<close>, the join column \<open>k\<close> and the surrogate key \<open>id\<close>, the list of columns
  selected from the join is \<open>a, map.id, b, fact.k\<close>, and the data frame returned has
  the columns \<open>a, id, b, k\<close>: the surrogate key stands where \<open>k\<close> stood, and \<open>k\<close> is
  the last column.
\<close>

theorem simpleMap_keeps_join_column_counterexample:
  "snd (insertColumnAndAlias [''a'', ''k'', ''b''] ''k'' ''id'' (Some [''id'', ''k'']))
     = [''a'', ''map.id'', ''b'', ''fact.k'']
   \<and> map_sum id (df_columns list_engine) (snd (simpleMap list_engine facts lookup ''k'' ''inner''))
     = Inr [''a'', ''id'', ''b'', ''k'']"
  by code_simp

text \<open>
  C2, amended: for every successful \<^verbatim>\<open>simpleMap\<close> where the join column is among the
  left columns and the surrogate key is not, the result is the engine's selection, from
  the join, of this column list: the left columns in their order, with the surrogate
  key, qualified as \<open>map.\<close>, at every position the join column occupied, with every
  other unqualified column that the projected lookup also has qualified as \<open>fact.\<close>,
  and with the join column, qualified as \<open>fact.\<close>, appended at the end. The join
  column is kept, as the last column.
\<close>

theorem simpleMap_select_list:
  assumes "df_columns E metadataDF = indexCol # others"
    and "df_select E metadataDF [indexCol, joinCol] = Inr selected"
    and "factCols = df_columns E (df_alias E factDF ''fact'')"
    and "joinCol \<in> set factCols" and "indexCol \<notin> set factCols"
    and "simpleMap E factDF metadataDF joinCol joinType = (out, Inr result)"
  shows "\<exists>joined.
           df_join E (df_alias E factDF ''fact'') (df_hint E (df_alias E selected ''map'') ''broadcast'')
             (simpleMap_join_condition joinCol) joinType = Inr joined
         \<and> df_select E joined
             (map (\<lambda>c. if c = joinCol then ''map.'' @ indexCol
                       else if CHR ''.'' \<notin> set c \<and> c \<in> set (df_columns E (df_alias E selected ''map''))
                            then ''fact.'' @ c else c) factCols
              @ [''fact.'' @ joinCol]) = Inr result"
proof -
  define theMap where "theMap = df_alias E selected ''map''"
  obtain pr selectCols where ica:
    "insertColumnAndAlias factCols joinCol indexCol (Some (df_columns E theMap)) = (pr, selectCols)"
    by (cases "insertColumnAndAlias factCols joinCol indexCol (Some (df_columns E theMap))") auto
  have sc: "selectCols = map (\<lambda>c. if c = joinCol then ''map.'' @ indexCol
                       else if CHR ''.'' \<notin> set c \<and> c \<in> set (df_columns E theMap)
                            then ''fact.'' @ c else c) factCols
              @ [''fact.'' @ joinCol]"
    using insertColumnAndAlias_shape[OF assms(4,5), of "Some (df_columns E theMap)"] ica by simp
  have "simpleMap_join E factDF (df_alias E factDF ''fact'') theMap factCols indexCol joinCol joinType
          = (out, Inr result)"
    using assms by (simp add: simpleMap_def Let_def theMap_def)
  then show ?thesis
    unfolding sc[symmetric] theMap_def[symmetric]
    by (auto simp: simpleMap_join_def Let_def ica split: sum.splits if_splits)
qed

theorem simpleMap_select_list_witness:
  "\<exists>joined.
     df_join list_engine (df_alias list_engine facts ''fact'')
       (df_hint list_engine
          (df_alias list_engine
             \<lparr> t_cols = [('''', ''id''), ('''', ''k'')],
               t_rows = [[Some 100, Some 7], [Some 101, None]] \<rparr> ''map'') ''broadcast'')
       (simpleMap_join_condition ''k'') ''inner'' = Inr joined
     \<and> df_select list_engine joined [''a'', ''map.id'', ''b'', ''fact.k'']
         = Inr \<lparr> t_cols = [(''fact'', ''a''), (''map'', ''id''), (''fact'', ''b''),
                            (''fact'', ''k'')],
                  t_rows = [[Some 1, Some 100, Some 3, Some 7],
                            [Some 2, Some 101, Some 4, None]] \<rparr>"
proof -
  let ?sel = "\<lparr> t_cols = [('''', ''id''), ('''', ''k'')],
                 t_rows = [[Some 100, Some 7], [Some 101, None]] \<rparr>"
  let ?result = "\<lparr> t_cols = [(''fact'', ''a''), (''map'', ''id''), (''fact'', ''b''),
                               (''fact'', ''k'')],
                    t_rows = [[Some 1, Some 100, Some 3, Some 7],
                              [Some 2, Some 101, Some 4, None]] \<rparr>"
  have f: "[''a'', ''k'', ''b''] = df_columns list_engine (df_alias list_engine facts ''fact'')"
    by code_simp
  have m: "''k'' \<in> set [''a'', ''k'', ''b'']" "''id'' \<notin> set [''a'', ''k'', ''b'']"
    by simp_all
  have c: "df_columns list_engine lookup = ''id'' # [''k'', ''descr'']"
    by code_simp
  have s: "df_select list_engine lookup [''id'', ''k''] = Inr ?sel"
    by code_simp
  have r: "simpleMap list_engine facts lookup ''k'' ''inner'' = ([], Inr ?result)"
    by code_simp
  have l: "map (\<lambda>c. if c = ''k'' then ''map.'' @ ''id''
                    else if CHR ''.'' \<notin> set c
                            \<and> c \<in> set (df_columns list_engine (df_alias list_engine ?sel ''map''))
                         then ''fact.'' @ c else c) [''a'', ''k'', ''b'']
             @ [''fact.'' @ ''k'']
           = [''a'', ''map.id'', ''b'', ''fact.k'']"
    by code_simp
  show ?thesis
    using simpleMap_select_list [OF c s f m r] unfolding l .
qed

end
